theory Spec2Isabelle
  imports Main "HOL-Library.Word" "HOL-Library.AList"
begin

unbundle bit_operations_syntax

section \<open>Loop vectorization legality (LoopVectorizationLegality.cpp)\<close>

text \<open>
  A shallow embedding of the legality analysis of the loop vectorizer. Values, blocks and
  instructions are identified by natural numbers (the pointer identity of the C++ objects).
  Members that the C++ code mutates are fields of explicit state records which every
  operation returns updated. The remarks sent to the optimization remark emitter are kept
  as a list, in the order of emission.

  Collaborators that live outside the file (scalar evolution, loop info, target library
  info, the induction and recurrence descriptors, the loop access analysis, the command
  line options of other files) are parameters: their answers are fields of the records
  \<open>config\<close> and \<open>analyses\<close>, or of the instruction, block and loop they are asked about.

  \<open>assert\<close> is compiled out of the optimised build and \<open>cast\<close> is then a static cast; the
  embedding follows that build, and says at each place what the asserted condition is.
\<close>

subsection \<open>Options and constants\<close>

type_synonym val = nat
type_synonym bb = nat
type_synonym u32 = "32 word"

record config =
  EnableVPlanPredication :: bool
  EnableIfConversion :: bool
  PragmaVectorizeMemoryCheckThreshold :: u32
  VectorizeSCEVCheckThreshold :: u32
  PragmaVectorizeSCEVCheckThreshold :: u32
  RuntimeMemoryCheckThreshold :: u32
  MaxVectorWidth :: u32
  VectorizationFactor :: u32
  VectorizationInterleave :: u32
  isInterleaveForced :: bool

text \<open>Maximum vectorization interleave count.\<close>

definition MaxInterleaveFactor :: u32 where
  "MaxInterleaveFactor = 16"

text \<open>
  Modelled from the spec: \<open>Prefix()\<close> is declared in the class header, which is not part of
  the file. It is the fixed name prefix of the persisted metadata entries; its value is the
  one with which \<open>setAlreadyVectorized\<close> writes the entry of the hint named
  \<open>isvectorized\<close> as \<open>llvm.loop.isvectorized\<close>.
\<close>

definition Prefix :: string where
  "Prefix = ''llvm.loop.''"

text \<open>
  Modelled from the spec: \<open>isPowerOf2_32\<close> (a support header, not part of the file) holds
  of the 32-bit values that are a power of two.
\<close>

definition isPowerOf2_32 :: "u32 \<Rightarrow> bool" where
  "isPowerOf2_32 v \<longleftrightarrow> v \<noteq> 0 \<and> v AND (v - 1) = 0"

definition startswith :: "string \<Rightarrow> string \<Rightarrow> bool" where
  "startswith s p \<longleftrightarrow> take (length p) s = p"

subsection \<open>Loop metadata\<close>

text \<open>
  A loop id is a metadata node whose first operand refers to the node itself; \<open>loop_id\<close>
  holds the operands after that one, \<open>None\<close> is the loop without a loop id. A constant
  integer is held by its zero-extended 64-bit value.
\<close>

datatype metadata =
  MDString string
  | ConstantInt "64 word"
  | MDNode "metadata list"
  | OtherMetadata

type_synonym loop_id = "metadata list option"

subsection \<open>Loop hints\<close>

datatype HintKind = HK_WIDTH | HK_UNROLL | HK_FORCE | HK_ISVECTORIZED

record Hint =
  Name :: string
  Value :: u32
  Kind :: HintKind

text \<open>
  Modelled from the spec: the force modes undefined, disabled and enabled are an
  enumeration of the class header; metadata sets the hint to 0 or 1 (see \<open>validate\<close>), and
  the undefined mode is the value of \<open>-1\<close>.
\<close>

definition FK_Undefined :: u32 where "FK_Undefined = - 1"
definition FK_Disabled :: u32 where "FK_Disabled = 0"
definition FK_Enabled :: u32 where "FK_Enabled = 1"

record LoopVectorizeHints =
  Width :: Hint
  Interleave :: Hint
  Force :: Hint
  IsVectorized :: Hint
  PotentiallyUnsafe :: bool

definition validate :: "config \<Rightarrow> Hint \<Rightarrow> u32 \<Rightarrow> bool" where
  "validate C H Val =
     (case Kind H of
        HK_WIDTH \<Rightarrow> isPowerOf2_32 Val \<and> Val \<le> MaxVectorWidth C
      | HK_UNROLL \<Rightarrow> isPowerOf2_32 Val \<and> Val \<le> MaxInterleaveFactor
      | HK_FORCE \<Rightarrow> Val \<le> 1
      | HK_ISVECTORIZED \<Rightarrow> Val = 0 \<or> Val = 1)"

text \<open>
  \<open>setHint\<close>: the name must start with the prefix, the argument must be a constant integer
  (truncated to \<open>unsigned\<close>), and the first hint of the array
  \<open>{Width, Interleave, Force, IsVectorized}\<close> with that name takes the value when it
  validates; an invalid value is ignored.
\<close>

definition setHint :: "config \<Rightarrow> string \<Rightarrow> metadata \<Rightarrow> LoopVectorizeHints \<Rightarrow> LoopVectorizeHints" where
  "setHint C Name0 Arg H =
     (if \<not> startswith Name0 Prefix then H
      else let Name1 = drop (length Prefix) Name0 in
        (case Arg of
           ConstantInt c \<Rightarrow>
             (let Val = (ucast c :: u32) in
              if Name1 = Name (Width H) then
                (if validate C (Width H) Val then H\<lparr>Width := (Width H)\<lparr>Value := Val\<rparr>\<rparr> else H)
              else if Name1 = Name (Interleave H) then
                (if validate C (Interleave H) Val
                 then H\<lparr>Interleave := (Interleave H)\<lparr>Value := Val\<rparr>\<rparr> else H)
              else if Name1 = Name (Force H) then
                (if validate C (Force H) Val then H\<lparr>Force := (Force H)\<lparr>Value := Val\<rparr>\<rparr> else H)
              else if Name1 = Name (IsVectorized H) then
                (if validate C (IsVectorized H) Val
                 then H\<lparr>IsVectorized := (IsVectorized H)\<lparr>Value := Val\<rparr>\<rparr> else H)
              else H)
         | _ \<Rightarrow> H))"

text \<open>
  One operand of the loop id: a node with a string as first operand gives the name and the
  remaining operands as arguments, a bare string gives the name and no argument; the hint
  is set when there is exactly one argument.
\<close>

definition scanOperand :: "config \<Rightarrow> metadata \<Rightarrow> LoopVectorizeHints \<Rightarrow> LoopVectorizeHints" where
  "scanOperand C Op H =
     (case Op of
        MDNode ops \<Rightarrow>
          (case ops of
             [] \<Rightarrow> H
           | S # Args \<Rightarrow>
               (case S of
                  MDString Name0 \<Rightarrow>
                    (case Args of [Arg] \<Rightarrow> setHint C Name0 Arg H | _ \<Rightarrow> H)
                | _ \<Rightarrow> H))
      | _ \<Rightarrow> H)"

definition getHintsFromMetadata :: "config \<Rightarrow> loop_id \<Rightarrow> LoopVectorizeHints \<Rightarrow> LoopVectorizeHints" where
  "getHintsFromMetadata C LoopID H =
     (case LoopID of None \<Rightarrow> H | Some ops \<Rightarrow> fold (scanOperand C) ops H)"

definition initialHints :: "config \<Rightarrow> bool \<Rightarrow> LoopVectorizeHints" where
  "initialHints C InterleaveOnlyWhenForced =
     \<lparr>Width = \<lparr>Name = ''vectorize.width'', Value = VectorizationFactor C, Kind = HK_WIDTH\<rparr>,
      Interleave = \<lparr>Name = ''interleave.count'',
                    Value = (if InterleaveOnlyWhenForced then 1 else 0), Kind = HK_UNROLL\<rparr>,
      Force = \<lparr>Name = ''vectorize.enable'', Value = FK_Undefined, Kind = HK_FORCE\<rparr>,
      IsVectorized = \<lparr>Name = ''isvectorized'', Value = 0, Kind = HK_ISVECTORIZED\<rparr>,
      PotentiallyUnsafe = False\<rparr>"

text \<open>The constructor \<open>LoopVectorizeHints::LoopVectorizeHints\<close>.\<close>

definition newLoopVectorizeHints :: "config \<Rightarrow> loop_id \<Rightarrow> bool \<Rightarrow> LoopVectorizeHints" where
  "newLoopVectorizeHints C LoopID InterleaveOnlyWhenForced =
     (let H1 = getHintsFromMetadata C LoopID (initialHints C InterleaveOnlyWhenForced);
          H2 = (if isInterleaveForced C
                then H1\<lparr>Interleave := (Interleave H1)\<lparr>Value := VectorizationInterleave C\<rparr>\<rparr>
                else H1)
      in if Value (IsVectorized H2) \<noteq> 1
         then H2\<lparr>IsVectorized := (IsVectorized H2)
                   \<lparr>Value := (if Value (Width H2) = 1 \<and> Value (Interleave H2) = 1 then 1 else 0)\<rparr>\<rparr>
         else H2)"

definition getWidth :: "LoopVectorizeHints \<Rightarrow> u32" where
  "getWidth H = Value (Width H)"

definition getInterleave :: "LoopVectorizeHints \<Rightarrow> u32" where
  "getInterleave H = Value (Interleave H)"

definition getIsVectorized :: "LoopVectorizeHints \<Rightarrow> u32" where
  "getIsVectorized H = Value (IsVectorized H)"

definition setPotentiallyUnsafe :: "LoopVectorizeHints \<Rightarrow> LoopVectorizeHints" where
  "setPotentiallyUnsafe H = H\<lparr>PotentiallyUnsafe := True\<rparr>"





subsection \<open>Types, operands, instructions, blocks and loops\<close>

datatype ty = IntegerTy nat | FloatingPointTy nat | PointerTy nat | VoidTy | OtherTy nat

fun isIntegerTy :: "ty \<Rightarrow> bool" where
  "isIntegerTy (IntegerTy n) = True"
| "isIntegerTy t = False"

fun isFloatingPointTy :: "ty \<Rightarrow> bool" where
  "isFloatingPointTy (FloatingPointTy n) = True"
| "isFloatingPointTy t = False"

fun isPointerTy :: "ty \<Rightarrow> bool" where
  "isPointerTy (PointerTy n) = True"
| "isPointerTy t = False"

fun isVoidTy :: "ty \<Rightarrow> bool" where
  "isVoidTy VoidTy = True"
| "isVoidTy t = False"

text \<open>
  An operand is a use of a value: the value, whether it is a \<open>Constant\<close>, and for a
  constant whether it can trap and whether it is the null value.
\<close>

record Operand =
  opValue :: val
  opIsConstant :: bool
  opCanTrap :: bool
  opIsNullValue :: bool

datatype Opcode = PHI | Call | Load | Store | ExtractElement | BinaryOp | Br | Switch | OtherInst

text \<open>
  An instruction carries its identity, its class (what \<open>dyn_cast\<close> and \<open>isa\<close> find), and
  the answers of the queries the analysis makes. The incoming values of a phi are its
  operands, \<open>incomingBlocks\<close> are the blocks they come from, in the same order. The
  pointer operand is that of a load or store, the value operand type that of a store, the
  called function (by name), the argument count and the debug intrinsic flag those of a
  call, the condition and the two successors those of a branch.
\<close>

record Instruction =
  ident :: val
  opcode :: Opcode
  getType :: ty
  operands :: "Operand list"
  incomingBlocks :: "bb list"
  mayReadFromMemory :: bool
  mayWriteToMemory :: bool
  mayThrow :: bool
  isFast :: bool
  getPointerOperand :: val
  getValueOperandType :: ty
  isDbgInfoIntrinsic :: bool
  getCalledFunction :: "string option"
  getNumArgOperands :: nat
  isConditional :: bool
  getCondition :: val
  getSuccessor0 :: bb
  getSuccessor1 :: bb

definition getNumIncomingValues :: "Instruction \<Rightarrow> nat" where
  "getNumIncomingValues Phi = length (operands Phi)"

text \<open>
  \<open>getIncomingValueForBlock\<close> asserts that the block is an incoming block of the phi; the
  result is \<open>None\<close> where it is not (and for the null block).
\<close>

definition getIncomingValueForBlock :: "Instruction \<Rightarrow> bb option \<Rightarrow> val option" where
  "getIncomingValueForBlock Phi B =
     (case B of
        None \<Rightarrow> None
      | Some b \<Rightarrow> map_option opValue (map_of (zip (incomingBlocks Phi) (operands Phi)) b))"

text \<open>
  Modelled from the spec: \<open>getLoadStorePointerOperand\<close> (an instruction helper, not part
  of the file) gives the address a load or a store accesses, and nothing for any other
  instruction.
\<close>

definition getLoadStorePointerOperand :: "Instruction \<Rightarrow> val option" where
  "getLoadStorePointerOperand I =
     (if opcode I = Load \<or> opcode I = Store then Some (getPointerOperand I) else None)"

text \<open>A block is its instructions before the terminator, and its terminator.\<close>

record BasicBlock =
  bid :: bb
  body :: "Instruction list"
  getTerminator :: Instruction

definition instructions :: "BasicBlock \<Rightarrow> Instruction list" where
  "instructions BB = body BB @ [getTerminator BB]"

definition phis :: "BasicBlock \<Rightarrow> Instruction list" where
  "phis BB = takeWhile (\<lambda>I. opcode I = PHI) (instructions BB)"

text \<open>
  A loop: the answers of loop info for the loop itself, and its sub-loops. The blocks are
  those of \<open>blocks()\<close>, in its order. Two loops are the same loop when they have the same
  header.
\<close>

record LoopData =
  getHeader :: BasicBlock
  getLoopPreheader :: "bb option"
  getNumBackEdges :: nat
  getExitingBlock :: "bb option"
  getLoopLatch :: "BasicBlock option"
  blocks :: "BasicBlock list"
  getCanonicalInductionVariable :: "Instruction option"
  isAnnotatedParallel :: bool
  isLoopInvariant :: "val \<Rightarrow> bool"

datatype Loop = Loop (info: LoopData) (getSubLoops: "Loop list")

definition sameLoop :: "Loop \<Rightarrow> Loop \<Rightarrow> bool" where
  "sameLoop Lp OuterLp \<longleftrightarrow> bid (getHeader (info Lp)) = bid (getHeader (info OuterLp))"

subsection \<open>Descriptors and collaborators\<close>

datatype InductionKind = IK_NoInduction | IK_IntInduction | IK_PtrInduction | IK_FpInduction

record InductionDescriptor =
  getKind :: InductionKind
  getStartValue :: Operand
  getConstIntStepValue :: "int option"
  getCastInsts :: "val list"
  ID_hasUnsafeAlgebra :: bool
  ID_getUnsafeAlgebraInst :: "val option"

record RecurrenceDescriptor =
  RD_hasUnsafeAlgebra :: bool
  RD_getUnsafeAlgebraInst :: "val option"
  getLoopExitInstr :: val

record LoopAccessInfo =
  getReport :: "(string \<times> string) option"
  LAI_canVectorizeMemory :: bool
  hasDependenceInvolvingLoopInvariantAddress :: bool
  getNumRuntimePointerChecks :: u32

text \<open>
  The collaborators. \<open>'p\<close> is the state of the predicated scalar evolution, whose union
  predicate the analysis only asks whether it is always true and how complex it is.
  \<open>isInductionPHI\<close> takes that state and the \<open>Assume\<close> flag, and returns the state it
  leaves; \<open>isFirstOrderRecurrence\<close> does the same with the sink-after map.
  \<open>addLAIPredicate\<close> adds the union predicate of the loop access analysis to the state.
  \<open>asCmpInst\<close> gives the two operands of a value that is a compare instruction.
\<close>

record 'p analyses =
  allowExtraAnalysis :: bool
  getForce :: "LoopVectorizeHints \<Rightarrow> u32"
  allowReordering :: "LoopVectorizeHints \<Rightarrow> bool"
  users :: "val \<Rightarrow> val list"
  getParent :: "val \<Rightarrow> bb"
  isLoopHeader :: "bb \<Rightarrow> bool"
  asCmpInst :: "val \<Rightarrow> (val \<times> val) option"
  blockNeedsPredication :: "bb \<Rightarrow> bool"
  isReductionPHI :: "Instruction \<Rightarrow> RecurrenceDescriptor option"
  isInductionPHI :: "Instruction \<Rightarrow> 'p \<Rightarrow> bool \<Rightarrow> InductionDescriptor option \<times> 'p"
  isFirstOrderRecurrence :: "Instruction \<Rightarrow> (val \<times> val) list \<Rightarrow> bool \<times> (val \<times> val) list"
  isAlwaysTrue :: "'p \<Rightarrow> bool"
  getComplexity :: "'p \<Rightarrow> u32"
  addLAIPredicate :: "'p \<Rightarrow> 'p"
  GetLAA :: LoopAccessInfo
  noNansFpMath :: string
  hasTLI :: bool
  getVectorIntrinsicIDForCall :: "Instruction \<Rightarrow> nat"
  isFunctionVectorizable :: "string \<Rightarrow> bool"
  getLibFunc :: "string \<Rightarrow> nat option"
  hasOptimizedCodeGen :: "nat \<Rightarrow> bool"
  hasVectorInstrinsicScalarOpd :: "nat \<Rightarrow> nat \<Rightarrow> bool"
  isLoopInvariantSCEV :: "'p \<Rightarrow> val \<Rightarrow> bool"
  isValidElementType :: "ty \<Rightarrow> bool"
  getScalarSizeInBits :: "ty \<Rightarrow> nat"
  getIntPtrType :: "ty \<Rightarrow> ty"

subsection \<open>Remarks and requirements\<close>

datatype PassName = LV_NAME | AlwaysPrint

datatype RemarkKind = Analysis | AnalysisFPCommute | AnalysisAliasing

record Remark =
  rKind :: RemarkKind
  rPass :: PassName
  rName :: string
  rMsg :: string
  rInst :: "val option"

definition vectorizeAnalysisPassName :: "'p analyses \<Rightarrow> LoopVectorizeHints \<Rightarrow> PassName" where
  "vectorizeAnalysisPassName A H =
     (if getWidth H = 1 then LV_NAME
      else if getForce A H = FK_Disabled then LV_NAME
      else if getForce A H = FK_Undefined \<and> getWidth H = 0 then LV_NAME
      else AlwaysPrint)"

record LoopVectorizationRequirements =
  NumRuntimePointerChecks :: u32
  UnsafeAlgebraInst :: "val option"

text \<open>
  Modelled from the spec: the two recording operations of the requirements tracker are
  defined in the class header. The tracker records the first instruction that demanded
  unsafe algebra, and the number of runtime pointer checks.
\<close>

definition addUnsafeAlgebraInst ::
  "val option \<Rightarrow> LoopVectorizationRequirements \<Rightarrow> LoopVectorizationRequirements" where
  "addUnsafeAlgebraInst I R = (if UnsafeAlgebraInst R = None then R\<lparr>UnsafeAlgebraInst := I\<rparr> else R)"

definition addRuntimePointerChecks ::
  "u32 \<Rightarrow> LoopVectorizationRequirements \<Rightarrow> LoopVectorizationRequirements" where
  "addRuntimePointerChecks Num R = R\<lparr>NumRuntimePointerChecks := Num\<rparr>"

text \<open>\<open>doesNotMeet\<close> returns its verdict and the remarks, extended.\<close>

definition doesNotMeet ::
  "config \<Rightarrow> 'p analyses \<Rightarrow> LoopVectorizeHints \<Rightarrow> LoopVectorizationRequirements
    \<Rightarrow> Remark list \<Rightarrow> bool \<times> Remark list" where
  "doesNotMeet C A H R ore0 =
     (let PassName = vectorizeAnalysisPassName A H;
          Failed0 = False;
          F1 = (UnsafeAlgebraInst R \<noteq> None \<and> \<not> allowReordering A H);
          ore1 = (if F1 then ore0 @ [\<lparr>rKind = AnalysisFPCommute, rPass = PassName,
                    rName = ''CantReorderFPOps'',
                    rMsg = ''loop not vectorized: cannot prove it is safe to reorder floating-point operations'',
                    rInst = UnsafeAlgebraInst R\<rparr>] else ore0);
          Failed1 = (if F1 then True else Failed0);
          PragmaThresholdReached =
            (NumRuntimePointerChecks R > PragmaVectorizeMemoryCheckThreshold C);
          ThresholdReached = (NumRuntimePointerChecks R > RuntimeMemoryCheckThreshold C);
          F2 = ((ThresholdReached \<and> \<not> allowReordering A H) \<or> PragmaThresholdReached);
          ore2 = (if F2 then ore1 @ [\<lparr>rKind = AnalysisAliasing, rPass = PassName,
                    rName = ''CantReorderMemOps'',
                    rMsg = ''loop not vectorized: cannot prove it is safe to reorder memory operations'',
                    rInst = None\<rparr>] else ore1);
          Failed2 = (if F2 then True else Failed1)
      in (Failed2, ore2))"

subsection \<open>The state of the legality analysis\<close>

text \<open>
  The members of \<open>LoopVectorizationLegality\<close> that the analysis writes, with the hints,
  the requirements and the remark emitter it holds by pointer. A pointer set is the list of
  its elements without duplicates, in the order of their insertion, which is the order in
  which a pointer set is walked as long as its elements are in its inline storage:
  \<open>insertPtr\<close> adds an element that is not yet there at the end. The maps are association
  lists.
\<close>

definition insertPtr :: "'a \<Rightarrow> 'a list \<Rightarrow> 'a list" where
  "insertPtr x xs = (if x \<in> set xs then xs else xs @ [x])"

record 'p legality =
  Inductions :: "(val \<times> InductionDescriptor) list"
  InductionCastsToIgnore :: "val list"
  WidestIndTy :: "ty option"
  PrimaryInduction :: "Instruction option"
  Reductions :: "(val \<times> RecurrenceDescriptor) list"
  FirstOrderRecurrences :: "val list"
  SinkAfter :: "(val \<times> val) list"
  AllowedExit :: "val list"
  MaskedOp :: "val list"
  PSE :: 'p
  HasFunNoNaNAttr :: bool
  Hints :: LoopVectorizeHints
  Requirements :: LoopVectorizationRequirements
  ORE :: "Remark list"

definition reportVectorizationFailure ::
  "'p analyses \<Rightarrow> string \<Rightarrow> string \<Rightarrow> val option \<Rightarrow> 'p legality \<Rightarrow> 'p legality" where
  "reportVectorizationFailure A OREMsg ORETag I S =
     S\<lparr>ORE := ORE S @ [\<lparr>rKind = Analysis, rPass = vectorizeAnalysisPassName A (Hints S),
                         rName = ORETag, rMsg = ''loop not vectorized: '' @ OREMsg,
                         rInst = I\<rparr>]\<rparr>"

definition contains :: "'p analyses \<Rightarrow> Loop \<Rightarrow> val \<Rightarrow> bool" where
  "contains A TheLoop UI \<longleftrightarrow> getParent A UI \<in> set (map bid (blocks (info TheLoop)))"

text \<open>Check that the instruction has outside loop users and is not an allowed exit.\<close>

definition hasOutsideLoopUser :: "'p analyses \<Rightarrow> Loop \<Rightarrow> Instruction \<Rightarrow> val list \<Rightarrow> bool" where
  "hasOutsideLoopUser A TheLoop Inst AllowedExit0 =
     (if ident Inst \<notin> set AllowedExit0
      then list_ex (\<lambda>UI. \<not> contains A TheLoop UI) (users A (ident Inst))
      else False)"

subsection \<open>Shape of the control flow graph\<close>

text \<open>
  Each check that fails reports, and then either records the failure in \<open>Result\<close> (when
  extra analysis is allowed) or returns false at once.
\<close>

definition canVectorizeLoopCFG :: "'p analyses \<Rightarrow> Loop \<Rightarrow> 'p legality \<Rightarrow> bool \<times> 'p legality" where
  "canVectorizeLoopCFG A Lp S0 =
     (let Result0 = True;
          DoExtraAnalysis = allowExtraAnalysis A;
          F1 = (getLoopPreheader (info Lp) = None);
          S1 = (if F1 then reportVectorizationFailure A
                  ''loop control flow is not understood by vectorizer'' ''CFGNotUnderstood'' None S0
                else S0);
          Result1 = (if F1 then False else Result0)
      in if F1 \<and> \<not> DoExtraAnalysis then (False, S1) else
     (let F2 = (getNumBackEdges (info Lp) \<noteq> 1);
          S2 = (if F2 then reportVectorizationFailure A
                  ''loop control flow is not understood by vectorizer'' ''CFGNotUnderstood'' None S1
                else S1);
          Result2 = (if F2 then False else Result1)
      in if F2 \<and> \<not> DoExtraAnalysis then (False, S2) else
     (let F3 = (getExitingBlock (info Lp) = None);
          S3 = (if F3 then reportVectorizationFailure A
                  ''loop control flow is not understood by vectorizer'' ''CFGNotUnderstood'' None S2
                else S2);
          Result3 = (if F3 then False else Result2)
      in if F3 \<and> \<not> DoExtraAnalysis then (False, S3) else
     (let F4 = (getExitingBlock (info Lp) \<noteq> map_option bid (getLoopLatch (info Lp)));
          S4 = (if F4 then reportVectorizationFailure A
                  ''loop control flow is not understood by vectorizer'' ''CFGNotUnderstood'' None S3
                else S3);
          Result4 = (if F4 then False else Result3)
      in if F4 \<and> \<not> DoExtraAnalysis then (False, S4) else (Result4, S4)))))"

text \<open>
  \<open>canVectorizeLoopNestCFG\<close>, with its loop over the sub-loops as a second function that
  carries \<open>Result\<close>.
\<close>

fun canVectorizeLoopNestCFG :: "'p analyses \<Rightarrow> Loop \<Rightarrow> 'p legality \<Rightarrow> bool \<times> 'p legality"
  and canVectorizeSubLoopsCFG ::
    "'p analyses \<Rightarrow> Loop list \<Rightarrow> bool \<Rightarrow> 'p legality \<Rightarrow> bool \<times> 'p legality" where
  "canVectorizeLoopNestCFG A (Loop d subs) S0 =
     (case canVectorizeLoopCFG A (Loop d subs) S0 of
        (ok, S1) \<Rightarrow>
          if \<not> ok \<and> \<not> allowExtraAnalysis A then (False, S1)
          else canVectorizeSubLoopsCFG A subs (if \<not> ok then False else True) S1)"
| "canVectorizeSubLoopsCFG A [] Result S = (Result, S)"
| "canVectorizeSubLoopsCFG A (SubLp # Ls) Result S =
     (case canVectorizeLoopNestCFG A SubLp S of
        (ok, S1) \<Rightarrow>
          if \<not> ok \<and> \<not> allowExtraAnalysis A then (False, S1)
          else canVectorizeSubLoopsCFG A Ls (if \<not> ok then False else Result) S1)"

subsection \<open>Uniformity of an outer loop\<close>

text \<open>
  \<open>isUniformLoop\<close> asserts that the loop has a latch; a canonical induction variable is
  only found for a loop with one, so the branch without a latch answers like the one
  without the variable. \<open>IVUpdate\<close> is the incoming value of the variable from the latch.
\<close>

definition isUniformLoop :: "'p analyses \<Rightarrow> Loop \<Rightarrow> Loop \<Rightarrow> bool" where
  "isUniformLoop A Lp OuterLp =
     (if sameLoop Lp OuterLp then True
      else case getCanonicalInductionVariable (info Lp) of
        None \<Rightarrow> False
      | Some IV \<Rightarrow>
         (case getLoopLatch (info Lp) of
            None \<Rightarrow> False
          | Some Latch \<Rightarrow>
             (let LatchBr = getTerminator Latch in
              if opcode LatchBr \<noteq> Br \<or> \<not> isConditional LatchBr then False
              else case asCmpInst A (getCondition LatchBr) of
                None \<Rightarrow> False
              | Some (CondOp0, CondOp1) \<Rightarrow>
                 (let IVUpdate = getIncomingValueForBlock IV (Some (bid Latch)) in
                  if \<not> (Some CondOp0 = IVUpdate \<and> isLoopInvariant (info OuterLp) CondOp1) \<and>
                     \<not> (Some CondOp1 = IVUpdate \<and> isLoopInvariant (info OuterLp) CondOp0)
                  then False else True))))"

fun isUniformLoopNest :: "'p analyses \<Rightarrow> Loop \<Rightarrow> Loop \<Rightarrow> bool"
  and isUniformSubLoops :: "'p analyses \<Rightarrow> Loop list \<Rightarrow> Loop \<Rightarrow> bool" where
  "isUniformLoopNest A (Loop d subs) OuterLp =
     (if \<not> isUniformLoop A (Loop d subs) OuterLp then False
      else isUniformSubLoops A subs OuterLp)"
| "isUniformSubLoops A [] OuterLp = True"
| "isUniformSubLoops A (SubLp # Ls) OuterLp =
     (if \<not> isUniformLoopNest A SubLp OuterLp then False else isUniformSubLoops A Ls OuterLp)"

subsection \<open>Inductions\<close>

definition convertPointerToIntegerType :: "'p analyses \<Rightarrow> ty \<Rightarrow> ty" where
  "convertPointerToIntegerType A Ty =
     (if isPointerTy Ty then getIntPtrType A Ty
      else if getScalarSizeInBits A Ty < 32 then IntegerTy 32
      else Ty)"

definition getWiderType :: "'p analyses \<Rightarrow> ty \<Rightarrow> ty \<Rightarrow> ty" where
  "getWiderType A Ty0 Ty1 =
     (let T0 = convertPointerToIntegerType A Ty0;
          T1 = convertPointerToIntegerType A Ty1
      in if getScalarSizeInBits A T0 > getScalarSizeInBits A T1 then T0 else T1)"

text \<open>
  \<open>addInductionPhi\<close>. The last step allows the phi and the value coming back into it from
  the latch to have users outside the loop, when the union predicate is always true.
  \<open>getIncomingValueForBlock\<close> asserts that the latch is an incoming block of the phi;
  where it is not, there is no such value to insert.
\<close>

definition addInductionPhi ::
  "'p analyses \<Rightarrow> Loop \<Rightarrow> Instruction \<Rightarrow> InductionDescriptor \<Rightarrow> 'p legality \<Rightarrow> 'p legality" where
  "addInductionPhi A TheLoop Phi ID S0 =
     (let S1 = S0\<lparr>Inductions := AList.update (ident Phi) ID (Inductions S0)\<rparr>;
          Casts = getCastInsts ID;
          S2 = (if Casts \<noteq> []
                then S1\<lparr>InductionCastsToIgnore := insertPtr (hd Casts) (InductionCastsToIgnore S1)\<rparr>
                else S1);
          PhiTy = getType Phi;
          S3 = (if \<not> isFloatingPointTy PhiTy then
                  (case WidestIndTy S2 of
                     None \<Rightarrow> S2\<lparr>WidestIndTy := Some (convertPointerToIntegerType A PhiTy)\<rparr>
                   | Some W \<Rightarrow> S2\<lparr>WidestIndTy := Some (getWiderType A PhiTy W)\<rparr>)
                else S2);
          S4 = (if getKind ID = IK_IntInduction \<and> getConstIntStepValue ID = Some 1 \<and>
                   opIsConstant (getStartValue ID) \<and> opIsNullValue (getStartValue ID)
                then (if PrimaryInduction S3 = None \<or> Some PhiTy = WidestIndTy S3
                      then S3\<lparr>PrimaryInduction := Some Phi\<rparr> else S3)
                else S3)
      in if isAlwaysTrue A (PSE S4)
         then (let AE1 = insertPtr (ident Phi) (AllowedExit S4) in
               S4\<lparr>AllowedExit :=
                    (case getIncomingValueForBlock Phi (map_option bid (getLoopLatch (info TheLoop))) of
                       None \<Rightarrow> AE1
                     | Some Inc \<Rightarrow> insertPtr Inc AE1)\<rparr>)
         else S4)"

text \<open>
  \<open>setupOuterLoopInductions\<close>: \<open>all_of\<close> stops at the first phi of the header that is not a
  supported induction.
\<close>

fun setupOuterLoopInductionsPhis ::
  "'p analyses \<Rightarrow> Loop \<Rightarrow> Instruction list \<Rightarrow> 'p legality \<Rightarrow> bool \<times> 'p legality" where
  "setupOuterLoopInductionsPhis A TheLoop [] S = (True, S)"
| "setupOuterLoopInductionsPhis A TheLoop (Phi # Phis) S =
     (case isInductionPHI A Phi (PSE S) False of
        (r, pse1) \<Rightarrow>
          (case r of
             Some ID \<Rightarrow>
               if getKind ID = IK_IntInduction
               then setupOuterLoopInductionsPhis A TheLoop Phis
                      (addInductionPhi A TheLoop Phi ID (S\<lparr>PSE := pse1\<rparr>))
               else (False, S\<lparr>PSE := pse1\<rparr>)
           | None \<Rightarrow> (False, S\<lparr>PSE := pse1\<rparr>)))"

definition setupOuterLoopInductions :: "'p analyses \<Rightarrow> Loop \<Rightarrow> 'p legality \<Rightarrow> bool \<times> 'p legality" where
  "setupOuterLoopInductions A TheLoop S =
     setupOuterLoopInductionsPhis A TheLoop (phis (getHeader (info TheLoop))) S"

text \<open>
  The loop over the blocks of \<open>canVectorizeOuterLoop\<close>: \<open>Inl\<close> is the early return of
  false, \<open>Inr\<close> the end of the loop with the value of \<open>Result\<close>.
\<close>

fun outerLoopBlocks ::
  "config \<Rightarrow> 'p analyses \<Rightarrow> Loop \<Rightarrow> BasicBlock list \<Rightarrow> bool \<Rightarrow> 'p legality
    \<Rightarrow> 'p legality + bool \<times> 'p legality" where
  "outerLoopBlocks C A TheLoop [] Result S = Inr (Result, S)"
| "outerLoopBlocks C A TheLoop (BB # BBs) Result S0 =
     (let DoExtraAnalysis = allowExtraAnalysis A;
          T = getTerminator BB;
          IsBr = (opcode T = Br);
          F1 = (\<not> IsBr);
          S1 = (if F1 then reportVectorizationFailure A
                  ''loop control flow is not understood by vectorizer'' ''CFGNotUnderstood'' None S0
                else S0);
          Result1 = (if F1 then False else Result)
      in if F1 \<and> \<not> DoExtraAnalysis then Inl S1 else
     (let F2 = (\<not> EnableVPlanPredication C \<and> IsBr \<and> isConditional T \<and>
                \<not> isLoopInvariant (info TheLoop) (getCondition T) \<and>
                \<not> isLoopHeader A (getSuccessor0 T) \<and> \<not> isLoopHeader A (getSuccessor1 T));
          S2 = (if F2 then reportVectorizationFailure A
                  ''loop control flow is not understood by vectorizer'' ''CFGNotUnderstood'' None S1
                else S1);
          Result2 = (if F2 then False else Result1)
      in if F2 \<and> \<not> DoExtraAnalysis then Inl S2
         else outerLoopBlocks C A TheLoop BBs Result2 S2))"

definition canVectorizeOuterLoop ::
  "config \<Rightarrow> 'p analyses \<Rightarrow> Loop \<Rightarrow> 'p legality \<Rightarrow> bool \<times> 'p legality" where
  "canVectorizeOuterLoop C A TheLoop S0 =
     (let DoExtraAnalysis = allowExtraAnalysis A in
      case outerLoopBlocks C A TheLoop (blocks (info TheLoop)) True S0 of
        Inl S1 \<Rightarrow> (False, S1)
      | Inr (Result1, S1) \<Rightarrow>
         (let F2 = (\<not> isUniformLoopNest A TheLoop TheLoop);
              S2 = (if F2 then reportVectorizationFailure A
                      ''loop control flow is not understood by vectorizer'' ''CFGNotUnderstood''
                      None S1
                    else S1);
              Result2 = (if F2 then False else Result1)
          in if F2 \<and> \<not> DoExtraAnalysis then (False, S2) else
            (case setupOuterLoopInductions A TheLoop S2 of
               (ok, S3) \<Rightarrow>
                 (let F3 = (\<not> ok);
                      S4 = (if F3 then reportVectorizationFailure A
                              ''Unsupported outer loop Phi(s)'' ''UnsupportedPhi'' None S3
                            else S3);
                      Result3 = (if F3 then False else Result2)
                  in if F3 \<and> \<not> DoExtraAnalysis then (False, S4) else (Result3, S4)))))"

subsection \<open>Instructions and phis\<close>

text \<open>
  The classification of a phi of the header, as the chain of attempts of
  \<open>canVectorizeInstrs\<close>. The first component of the result says whether the scan goes on
  (\<open>continue\<close>); \<open>False\<close> is the return of false.
\<close>

definition checkHeaderPhi ::
  "'p analyses \<Rightarrow> Loop \<Rightarrow> Instruction \<Rightarrow> 'p legality \<Rightarrow> bool \<times> 'p legality" where
  "checkHeaderPhi A TheLoop Phi S0 =
     (if getNumIncomingValues Phi \<noteq> 2
      then (False, reportVectorizationFailure A
              ''loop control flow is not understood by vectorizer'' ''CFGNotUnderstood''
              (Some (ident Phi)) S0)
      else case isReductionPHI A Phi of
        Some RedDes \<Rightarrow>
          (let S1 = (if RD_hasUnsafeAlgebra RedDes
                     then S0\<lparr>Requirements :=
                            addUnsafeAlgebraInst (RD_getUnsafeAlgebraInst RedDes) (Requirements S0)\<rparr>
                     else S0);
               S2 = S1\<lparr>AllowedExit := insertPtr (getLoopExitInstr RedDes) (AllowedExit S1)\<rparr>;
               S3 = S2\<lparr>Reductions := AList.update (ident Phi) RedDes (Reductions S2)\<rparr>
           in (True, S3))
      | None \<Rightarrow>
          (case isInductionPHI A Phi (PSE S0) False of
             (Some ID, pse1) \<Rightarrow>
               (let S1 = addInductionPhi A TheLoop Phi ID (S0\<lparr>PSE := pse1\<rparr>);
                    S2 = (if ID_hasUnsafeAlgebra ID \<and> \<not> HasFunNoNaNAttr S1
                          then S1\<lparr>Requirements :=
                                 addUnsafeAlgebraInst (ID_getUnsafeAlgebraInst ID) (Requirements S1)\<rparr>
                          else S1)
                in (True, S2))
           | (None, pse1) \<Rightarrow>
               (case isFirstOrderRecurrence A Phi (SinkAfter S0) of
                  (True, sink1) \<Rightarrow>
                    (True, S0\<lparr>PSE := pse1, SinkAfter := sink1,
                              FirstOrderRecurrences :=
                                insertPtr (ident Phi) (FirstOrderRecurrences S0)\<rparr>)
                | (False, sink1) \<Rightarrow>
                    (case isInductionPHI A Phi pse1 True of
                       (Some ID, pse2) \<Rightarrow>
                         (True, addInductionPhi A TheLoop Phi ID
                                  (S0\<lparr>PSE := pse2, SinkAfter := sink1\<rparr>))
                     | (None, pse2) \<Rightarrow>
                         (False, reportVectorizationFailure A
                            ''value that could not be identified as reduction is used outside the loop''
                            ''NonReductionValueUsedOutsideLoop'' (Some (ident Phi))
                            (S0\<lparr>PSE := pse2, SinkAfter := sink1\<rparr>))))))"

text \<open>The checks of an instruction that is not a phi.\<close>

definition checkNonPhi ::
  "'p analyses \<Rightarrow> Loop \<Rightarrow> Instruction \<Rightarrow> 'p legality \<Rightarrow> bool \<times> 'p legality" where
  "checkNonPhi A TheLoop I S0 =
     (let CI = (opcode I = Call);
          IntrinID = getVectorIntrinsicIDForCall A I;
          Vectorizable = (case getCalledFunction I of
                            None \<Rightarrow> False
                          | Some F \<Rightarrow> hasTLI A \<and> isFunctionVectorizable A F)
      in if CI \<and> IntrinID = 0 \<and> \<not> isDbgInfoIntrinsic I \<and> \<not> Vectorizable then
           (let IsMathLibCall =
                  (hasTLI A \<and>
                   (case getCalledFunction I of
                      None \<Rightarrow> False
                    | Some F \<Rightarrow> isFloatingPointTy (getType I) \<and>
                        (case getLibFunc A F of
                           None \<Rightarrow> False
                         | Some TheLibFunc \<Rightarrow> hasOptimizedCodeGen A TheLibFunc)))
            in if IsMathLibCall
               then (False, reportVectorizationFailure A
                       ''library call cannot be vectorized. Try compiling with -fno-math-errno, -ffast-math, or similar flags''
                       ''CantVectorizeLibcall'' (Some (ident I)) S0)
               else (False, reportVectorizationFailure A
                       ''call instruction cannot be vectorized''
                       ''CantVectorizeLibcall'' (Some (ident I)) S0))
         else if CI \<and>
                 list_ex (\<lambda>(i, Op). hasVectorInstrinsicScalarOpd A IntrinID i \<and>
                                    \<not> isLoopInvariantSCEV A (PSE S0) (opValue Op))
                   (enumerate 0 (take (getNumArgOperands I) (operands I))) then
           (False, reportVectorizationFailure A
              ''intrinsic instruction cannot be vectorized''
              ''CantVectorizeIntrinsic'' (Some (ident I)) S0)
         else if (\<not> isValidElementType A (getType I) \<and> \<not> isVoidTy (getType I)) \<or>
                 opcode I = ExtractElement then
           (False, reportVectorizationFailure A
              ''instruction return type cannot be vectorized''
              ''CantVectorizeInstructionReturnType'' (Some (ident I)) S0)
         else if opcode I = Store \<and> \<not> isValidElementType A (getValueOperandType I) then
           (False, reportVectorizationFailure A
              ''store instruction cannot be vectorized''
              ''CantVectorizeStore'' (Some (ident I)) S0)
         else
           (let S1 = (if opcode I \<noteq> Store \<and> isFloatingPointTy (getType I) \<and>
                         (CI \<or> opcode I = BinaryOp) \<and> \<not> isFast I
                      then S0\<lparr>Hints := setPotentiallyUnsafe (Hints S0)\<rparr>
                      else S0)
            in if hasOutsideLoopUser A TheLoop I (AllowedExit S1) then
                 (if isAlwaysTrue A (PSE S1)
                  then (True, S1\<lparr>AllowedExit := insertPtr (ident I) (AllowedExit S1)\<rparr>)
                  else (False, reportVectorizationFailure A
                          ''value cannot be used outside the loop''
                          ''ValueUsedOutsideLoop'' (Some (ident I)) S1))
               else (True, S1)))"

text \<open>The body of the scan, for the instruction \<open>I\<close> of the block \<open>BB\<close>.\<close>

definition checkInstr ::
  "'p analyses \<Rightarrow> Loop \<Rightarrow> BasicBlock \<Rightarrow> Instruction \<Rightarrow> 'p legality \<Rightarrow> bool \<times> 'p legality" where
  "checkInstr A TheLoop BB I S0 =
     (if opcode I = PHI then
        (let PhiTy = getType I in
         if \<not> isIntegerTy PhiTy \<and> \<not> isFloatingPointTy PhiTy \<and> \<not> isPointerTy PhiTy
         then (False, reportVectorizationFailure A
                 ''loop control flow is not understood by vectorizer'' ''CFGNotUnderstood''
                 None S0)
         else if bid BB \<noteq> bid (getHeader (info TheLoop)) then (True, S0)
         else checkHeaderPhi A TheLoop I S0)
      else checkNonPhi A TheLoop I S0)"

fun canVectorizeInstrsOf ::
  "'p analyses \<Rightarrow> Loop \<Rightarrow> BasicBlock \<Rightarrow> Instruction list \<Rightarrow> 'p legality \<Rightarrow> bool \<times> 'p legality" where
  "canVectorizeInstrsOf A TheLoop BB [] S = (True, S)"
| "canVectorizeInstrsOf A TheLoop BB (I # Is) S =
     (case checkInstr A TheLoop BB I S of
        (ok, S1) \<Rightarrow> if ok then canVectorizeInstrsOf A TheLoop BB Is S1 else (False, S1))"

fun canVectorizeInstrsBlocks ::
  "'p analyses \<Rightarrow> Loop \<Rightarrow> BasicBlock list \<Rightarrow> 'p legality \<Rightarrow> bool \<times> 'p legality" where
  "canVectorizeInstrsBlocks A TheLoop [] S = (True, S)"
| "canVectorizeInstrsBlocks A TheLoop (BB # BBs) S =
     (case canVectorizeInstrsOf A TheLoop BB (instructions BB) S of
        (ok, S1) \<Rightarrow> if ok then canVectorizeInstrsBlocks A TheLoop BBs S1 else (False, S1))"

definition canVectorizeInstrs :: "'p analyses \<Rightarrow> Loop \<Rightarrow> 'p legality \<Rightarrow> bool \<times> 'p legality" where
  "canVectorizeInstrs A TheLoop S0 =
     (let S1 = S0\<lparr>HasFunNoNaNAttr := (noNansFpMath A = ''true'')\<rparr> in
      case canVectorizeInstrsBlocks A TheLoop (blocks (info TheLoop)) S1 of
        (ok, S2) \<Rightarrow>
          if \<not> ok then (False, S2)
          else
            (case PrimaryInduction S2 of
               None \<Rightarrow>
                 if Inductions S2 = [] then
                   (False, reportVectorizationFailure A
                      ''loop induction variable could not be identified''
                      ''NoInductionVariable'' None S2)
                 else if WidestIndTy S2 = None then
                   (False, reportVectorizationFailure A
                      ''integer loop induction variable could not be identified''
                      ''NoIntegerInductionVariable'' None S2)
                 else (True, S2)
             | Some P \<Rightarrow>
                 if WidestIndTy S2 \<noteq> Some (getType P)
                 then (True, S2\<lparr>PrimaryInduction := None\<rparr>)
                 else (True, S2)))"

subsection \<open>Memory\<close>

definition canVectorizeMemory :: "'p analyses \<Rightarrow> 'p legality \<Rightarrow> bool \<times> 'p legality" where
  "canVectorizeMemory A S0 =
     (let LAI = GetLAA A;
          S1 = (case getReport LAI of
                  None \<Rightarrow> S0
                | Some (LARName, LARMsg) \<Rightarrow>
                    S0\<lparr>ORE := ORE S0 @
                      [\<lparr>rKind = Analysis, rPass = vectorizeAnalysisPassName A (Hints S0),
                        rName = LARName, rMsg = ''loop not vectorized: '' @ LARMsg,
                        rInst = None\<rparr>]\<rparr>)
      in if \<not> LAI_canVectorizeMemory LAI then (False, S1)
         else if hasDependenceInvolvingLoopInvariantAddress LAI then
           (False, reportVectorizationFailure A
              ''write to a loop invariant address could not be vectorized''
              ''CantVectorizeStoreToLoopInvariantAddress'' None S1)
         else (True, S1\<lparr>Requirements :=
                          addRuntimePointerChecks (getNumRuntimePointerChecks LAI) (Requirements S1),
                        PSE := addLAIPredicate A (PSE S1)\<rparr>))"

subsection \<open>If-conversion\<close>

text \<open>
  \<open>blockCanBePredicated\<close>, instruction by instruction. A load that needs a mask and a
  store are recorded in \<open>MaskedOp\<close>, and the loop goes on with the next instruction.
\<close>

fun blockCanBePredicatedInstrs ::
  "bool \<Rightarrow> val list \<Rightarrow> Instruction list \<Rightarrow> 'p legality \<Rightarrow> bool \<times> 'p legality" where
  "blockCanBePredicatedInstrs IsAnnotatedParallel SafePtrs [] S = (True, S)"
| "blockCanBePredicatedInstrs IsAnnotatedParallel SafePtrs (I # Is) S =
     (if list_ex (\<lambda>Op. opIsConstant Op \<and> opCanTrap Op) (operands I) then (False, S)
      else if mayReadFromMemory I \<and> opcode I \<noteq> Load then (False, S)
      else if mayReadFromMemory I \<and> getPointerOperand I \<notin> set SafePtrs then
        blockCanBePredicatedInstrs IsAnnotatedParallel SafePtrs Is
          (if \<not> IsAnnotatedParallel
           then S\<lparr>MaskedOp := insertPtr (ident I) (MaskedOp S)\<rparr> else S)
      else if mayWriteToMemory I then
        (if opcode I \<noteq> Store then (False, S)
         else blockCanBePredicatedInstrs IsAnnotatedParallel SafePtrs Is
                (S\<lparr>MaskedOp := insertPtr (ident I) (MaskedOp S)\<rparr>))
      else if mayThrow I then (False, S)
      else blockCanBePredicatedInstrs IsAnnotatedParallel SafePtrs Is S)"

definition blockCanBePredicated ::
  "Loop \<Rightarrow> BasicBlock \<Rightarrow> val list \<Rightarrow> 'p legality \<Rightarrow> bool \<times> 'p legality" where
  "blockCanBePredicated TheLoop BB SafePtrs S =
     blockCanBePredicatedInstrs (isAnnotatedParallel (info TheLoop)) SafePtrs (instructions BB) S"

text \<open>Phi nodes with constant expressions that can trap are not safe to if convert.\<close>

definition canIfConvertPHINodes :: "BasicBlock \<Rightarrow> bool" where
  "canIfConvertPHINodes BB \<longleftrightarrow>
     \<not> list_ex (\<lambda>Phi. list_ex (\<lambda>V. opIsConstant V \<and> opCanTrap V) (operands Phi)) (phis BB)"

text \<open>The safe addresses: those accessed in the blocks that need no predication.\<close>

definition collectSafePointers :: "'p analyses \<Rightarrow> Loop \<Rightarrow> val list" where
  "collectSafePointers A TheLoop =
     fold (\<lambda>BB Safe.
             if blockNeedsPredication A (bid BB) then Safe
             else fold (\<lambda>I Safe1. case getLoadStorePointerOperand I of
                                    None \<Rightarrow> Safe1
                                  | Some Ptr \<Rightarrow> insertPtr Ptr Safe1)
                       (instructions BB) Safe)
          (blocks (info TheLoop)) []"

fun ifConvertBlocks ::
  "'p analyses \<Rightarrow> Loop \<Rightarrow> val list \<Rightarrow> BasicBlock list \<Rightarrow> 'p legality \<Rightarrow> bool \<times> 'p legality" where
  "ifConvertBlocks A TheLoop SafePointes [] S = (True, S)"
| "ifConvertBlocks A TheLoop SafePointes (BB # BBs) S =
     (if opcode (getTerminator BB) \<noteq> Br then
        (False, reportVectorizationFailure A
           ''loop contains a switch statement'' ''LoopContainsSwitch''
           (Some (ident (getTerminator BB))) S)
      else if blockNeedsPredication A (bid BB) then
        (case blockCanBePredicated TheLoop BB SafePointes S of
           (ok, S1) \<Rightarrow>
             if \<not> ok then
               (False, reportVectorizationFailure A
                  ''control flow cannot be substituted for a select'' ''NoCFGForSelect''
                  (Some (ident (getTerminator BB))) S1)
             else ifConvertBlocks A TheLoop SafePointes BBs S1)
      else if bid BB \<noteq> bid (getHeader (info TheLoop)) \<and> \<not> canIfConvertPHINodes BB then
        (False, reportVectorizationFailure A
           ''control flow cannot be substituted for a select'' ''NoCFGForSelect''
           (Some (ident (getTerminator BB))) S)
      else ifConvertBlocks A TheLoop SafePointes BBs S)"

text \<open>\<open>canVectorizeWithIfConvert\<close> asserts that the loop has more than one block.\<close>

definition canVectorizeWithIfConvert ::
  "config \<Rightarrow> 'p analyses \<Rightarrow> Loop \<Rightarrow> 'p legality \<Rightarrow> bool \<times> 'p legality" where
  "canVectorizeWithIfConvert C A TheLoop S =
     (if \<not> EnableIfConversion C then
        (False, reportVectorizationFailure A
           ''if-conversion is disabled'' ''IfConversionDisabled'' None S)
      else ifConvertBlocks A TheLoop (collectSafePointers A TheLoop) (blocks (info TheLoop)) S)"

subsection \<open>The legality verdict\<close>

text \<open>
  \<open>canVectorize\<close>. Its parameter \<open>UseVPlanNativePath\<close> is only read by assertions (a loop
  with sub-loops is only analysed on the native path).
\<close>

definition canVectorize ::
  "config \<Rightarrow> 'p analyses \<Rightarrow> Loop \<Rightarrow> 'p legality \<Rightarrow> bool \<times> 'p legality" where
  "canVectorize C A TheLoop S0 =
     (let DoExtraAnalysis = allowExtraAnalysis A in
      case canVectorizeLoopNestCFG A TheLoop S0 of (ok1, S1) \<Rightarrow>
      if \<not> ok1 \<and> \<not> DoExtraAnalysis then (False, S1) else
     (let Result1 = (if \<not> ok1 then False else True) in
      if getSubLoops TheLoop \<noteq> [] then
        (case canVectorizeOuterLoop C A TheLoop S1 of (okOuter, S2) \<Rightarrow>
           if \<not> okOuter
           then (False, reportVectorizationFailure A
                   ''unsupported outer loop'' ''UnsupportedOuterLoop'' None S2)
           else (Result1, S2))
      else
        (let NumBlocks = length (blocks (info TheLoop)) in
         case (if NumBlocks \<noteq> 1 then canVectorizeWithIfConvert C A TheLoop S1 else (True, S1))
         of (ok2, S2) \<Rightarrow>
         if \<not> ok2 \<and> \<not> DoExtraAnalysis then (False, S2) else
        (let Result2 = (if \<not> ok2 then False else Result1) in
         case canVectorizeInstrs A TheLoop S2 of (ok3, S3) \<Rightarrow>
         if \<not> ok3 \<and> \<not> DoExtraAnalysis then (False, S3) else
        (let Result3 = (if \<not> ok3 then False else Result2) in
         case canVectorizeMemory A S3 of (ok4, S4) \<Rightarrow>
         if \<not> ok4 \<and> \<not> DoExtraAnalysis then (False, S4) else
        (let Result4 = (if \<not> ok4 then False else Result3);
             SCEVThreshold = (if getForce A (Hints S4) = FK_Enabled
                              then PragmaVectorizeSCEVCheckThreshold C
                              else VectorizeSCEVCheckThreshold C);
             F5 = (getComplexity A (PSE S4) > SCEVThreshold);
             S5 = (if F5 then reportVectorizationFailure A
                     ''Too many SCEV assumptions need to be made and checked at runtime''
                     ''TooManySCEVRunTimeChecks'' None S4
                   else S4);
             Result5 = (if F5 then False else Result4)
         in if F5 \<and> \<not> DoExtraAnalysis then (False, S5) else (Result5, S5)))))))"

subsection \<open>Folding the tail by masking\<close>

fun foldTailBlocks ::
  "'p analyses \<Rightarrow> Loop \<Rightarrow> BasicBlock list \<Rightarrow> 'p legality \<Rightarrow> bool \<times> 'p legality" where
  "foldTailBlocks A TheLoop [] S = (True, S)"
| "foldTailBlocks A TheLoop (BB # BBs) S =
     (case blockCanBePredicated TheLoop BB [] S of
        (ok, S1) \<Rightarrow>
          if \<not> ok then
            (False, reportVectorizationFailure A
               ''control flow cannot be substituted for a select'' ''NoCFGForSelect''
               (Some (ident (getTerminator BB))) S1)
          else foldTailBlocks A TheLoop BBs S1)"

text \<open>
  \<open>canFoldTailByMasking\<close>. The two nested loops over the allowed exits, in the order of
  their insertion, and over the users of each return at the first user outside the loop.
\<close>

definition canFoldTailByMasking :: "'p analyses \<Rightarrow> Loop \<Rightarrow> 'p legality \<Rightarrow> bool \<times> 'p legality" where
  "canFoldTailByMasking A TheLoop S =
     (if PrimaryInduction S = None then
        (False, reportVectorizationFailure A
           ''Missing a primary induction variable in the loop, which is needed in order to fold tail by masking as required.''
           ''NoPrimaryInduction'' None S)
      else if Reductions S \<noteq> [] then
        (False, reportVectorizationFailure A
           ''Cannot fold tail by masking in the presence of reductions.''
           ''ReductionFoldingTailByMasking'' None S)
      else case find (\<lambda>UI. \<not> contains A TheLoop UI) (concat (map (users A) (AllowedExit S))) of
        Some UI \<Rightarrow>
          (False, reportVectorizationFailure A
             ''Cannot fold tail by masking in the presence of live outs.''
             ''LiveOutFoldingTailByMasking'' (Some UI) S)
      | None \<Rightarrow> foldTailBlocks A TheLoop (blocks (info TheLoop)) S)"

subsection \<open>Notions used to state the properties\<close>

text \<open>The loops of a loop nest: the loop, and the loops of the nests of its sub-loops.\<close>

fun loopNest :: "Loop \<Rightarrow> Loop list" where
  "loopNest (Loop d subs) = Loop d subs # concat (map loopNest subs)"

text \<open>
  The shape the checker asks of a loop: a preheader, one back-edge, a single exiting block,
  and that block the latch.
\<close>

definition cfgUnderstood :: "Loop \<Rightarrow> bool" where
  "cfgUnderstood Lp \<longleftrightarrow>
     getLoopPreheader (info Lp) \<noteq> None \<and> getNumBackEdges (info Lp) = 1 \<and>
     getExitingBlock (info Lp) \<noteq> None \<and>
     getExitingBlock (info Lp) = map_option bid (getLoopLatch (info Lp))"

text \<open>The allowed exits of the second state include those of the first.\<close>

definition allowedExitGrows :: "'p legality \<Rightarrow> 'p legality \<Rightarrow> bool" where
  "allowedExitGrows S S' \<longleftrightarrow> set (AllowedExit S) \<subseteq> set (AllowedExit S')"

text \<open>
  What \<open>blockCanBePredicated\<close> looks at in one instruction: an operand that is a constant
  which can trap; a load that is recorded for masking (it reads memory, is a load
  instruction, and its address is not a safe pointer), after which the instruction is
  looked at no further; and the verdict on the instruction.
\<close>

definition trappingOperand :: "Instruction \<Rightarrow> bool" where
  "trappingOperand I \<longleftrightarrow> (\<exists>Op \<in> set (operands I). opIsConstant Op \<and> opCanTrap Op)"

definition maskedLoad :: "val list \<Rightarrow> Instruction \<Rightarrow> bool" where
  "maskedLoad SafePtrs I \<longleftrightarrow>
     mayReadFromMemory I \<and> opcode I = Load \<and> getPointerOperand I \<notin> set SafePtrs"

definition instrCanBePredicated :: "val list \<Rightarrow> Instruction \<Rightarrow> bool" where
  "instrCanBePredicated SafePtrs I \<longleftrightarrow>
     \<not> trappingOperand I \<and> (mayReadFromMemory I \<longrightarrow> opcode I = Load) \<and>
     (maskedLoad SafePtrs I \<or> (if mayWriteToMemory I then opcode I = Store else \<not> mayThrow I))"

text \<open>
  Facts of the instruction classes, which are not part of the file: a load may read from
  memory, a store may write to memory, and neither may throw.
\<close>

definition wellFormedInstr :: "Instruction \<Rightarrow> bool" where
  "wellFormedInstr I \<longleftrightarrow>
     (opcode I = Load \<longrightarrow> mayReadFromMemory I \<and> \<not> mayThrow I) \<and>
     (opcode I = Store \<longrightarrow> mayWriteToMemory I \<and> \<not> mayThrow I)"

text \<open>
  The classification of a header phi in the words of the spec: reduction, then induction,
  then first-order recurrence, then induction with the relaxed coercion, the first match
  wins, and a phi that matches none is unclassifiable. \<open>recordedAs\<close> is what each class
  must leave in the state, and whether the scan goes on.
\<close>

datatype PhiClass =
  IsReduction RecurrenceDescriptor
  | IsInduction InductionDescriptor
  | IsFirstOrderRecurrence
  | IsCoercedInduction InductionDescriptor
  | Unclassifiable

definition classificationBySpec :: "'p analyses \<Rightarrow> Instruction \<Rightarrow> 'p legality \<Rightarrow> PhiClass" where
  "classificationBySpec A Phi S =
     (case isReductionPHI A Phi of
        Some RedDes \<Rightarrow> IsReduction RedDes
      | None \<Rightarrow>
         (case isInductionPHI A Phi (PSE S) False of
            (Some ID, pse1) \<Rightarrow> IsInduction ID
          | (None, pse1) \<Rightarrow>
             (case isFirstOrderRecurrence A Phi (SinkAfter S) of
                (True, sink1) \<Rightarrow> IsFirstOrderRecurrence
              | (False, sink1) \<Rightarrow>
                 (case isInductionPHI A Phi pse1 True of
                    (Some ID, pse2) \<Rightarrow> IsCoercedInduction ID
                  | (None, pse2) \<Rightarrow> Unclassifiable))))"

definition recordedAs ::
  "PhiClass \<Rightarrow> Instruction \<Rightarrow> 'p legality \<Rightarrow> bool \<times> 'p legality \<Rightarrow> bool" where
  "recordedAs K Phi S R =
     (case K of
        IsReduction RedDes \<Rightarrow>
          fst R \<and> map_of (Reductions (snd R)) (ident Phi) = Some RedDes \<and>
          getLoopExitInstr RedDes \<in> set (AllowedExit (snd R)) \<and>
          Inductions (snd R) = Inductions S \<and>
          FirstOrderRecurrences (snd R) = FirstOrderRecurrences S
      | IsInduction ID \<Rightarrow>
          fst R \<and> map_of (Inductions (snd R)) (ident Phi) = Some ID \<and>
          Reductions (snd R) = Reductions S \<and>
          FirstOrderRecurrences (snd R) = FirstOrderRecurrences S
      | IsFirstOrderRecurrence \<Rightarrow>
          fst R \<and> ident Phi \<in> set (FirstOrderRecurrences (snd R)) \<and>
          Reductions (snd R) = Reductions S \<and> Inductions (snd R) = Inductions S
      | IsCoercedInduction ID \<Rightarrow>
          fst R \<and> map_of (Inductions (snd R)) (ident Phi) = Some ID \<and>
          Reductions (snd R) = Reductions S \<and>
          FirstOrderRecurrences (snd R) = FirstOrderRecurrences S
      | Unclassifiable \<Rightarrow>
          \<not> fst R \<and> Reductions (snd R) = Reductions S \<and> Inductions (snd R) = Inductions S \<and>
          FirstOrderRecurrences (snd R) = FirstOrderRecurrences S)"



subsection \<open>Example inputs\<close>

text \<open>
  The options at their defaults; collaborators that find no reduction, induction or
  recurrence, no user of any value, no block that needs predication, and an always true
  predicate; the state before the analysis.
\<close>

definition exConfig :: config where
  "exConfig = \<lparr>EnableVPlanPredication = False, EnableIfConversion = True,
     PragmaVectorizeMemoryCheckThreshold = 128, VectorizeSCEVCheckThreshold = 16,
     PragmaVectorizeSCEVCheckThreshold = 128, RuntimeMemoryCheckThreshold = 8,
     MaxVectorWidth = 64, VectorizationFactor = 0, VectorizationInterleave = 0,
     isInterleaveForced = False\<rparr>"

definition exAnalyses :: "unit analyses" where
  "exAnalyses = \<lparr>allowExtraAnalysis = False,
     getForce = (\<lambda>H. Value (Force H)),
     allowReordering = (\<lambda>H. Value (Force H) = FK_Enabled \<or> Value (Width H) > 1),
     users = (\<lambda>V. []),
     getParent = (\<lambda>V. 0),
     isLoopHeader = (\<lambda>B. B = 0),
     asCmpInst = (\<lambda>V. None),
     blockNeedsPredication = (\<lambda>B. False),
     isReductionPHI = (\<lambda>Phi. None),
     isInductionPHI = (\<lambda>Phi pse Assume. (None, pse)),
     isFirstOrderRecurrence = (\<lambda>Phi sink. (False, sink)),
     isAlwaysTrue = (\<lambda>pse. True),
     getComplexity = (\<lambda>pse. 0),
     addLAIPredicate = (\<lambda>pse. pse),
     GetLAA = \<lparr>getReport = None, LAI_canVectorizeMemory = True,
               hasDependenceInvolvingLoopInvariantAddress = False,
               getNumRuntimePointerChecks = 0\<rparr>,
     noNansFpMath = ''false'',
     hasTLI = False,
     getVectorIntrinsicIDForCall = (\<lambda>CI. 0),
     isFunctionVectorizable = (\<lambda>F. False),
     getLibFunc = (\<lambda>F. None),
     hasOptimizedCodeGen = (\<lambda>F. False),
     hasVectorInstrinsicScalarOpd = (\<lambda>ID i. False),
     isLoopInvariantSCEV = (\<lambda>pse V. False),
     isValidElementType = (\<lambda>T. isIntegerTy T \<or> isFloatingPointTy T \<or> isPointerTy T),
     getScalarSizeInBits = (\<lambda>T. case T of IntegerTy n \<Rightarrow> n | FloatingPointTy n \<Rightarrow> n | _ \<Rightarrow> 0),
     getIntPtrType = (\<lambda>T. IntegerTy 64)\<rparr>"

definition exState :: "unit legality" where
  "exState = \<lparr>Inductions = [], InductionCastsToIgnore = [], WidestIndTy = None,
     PrimaryInduction = None, Reductions = [], FirstOrderRecurrences = [], SinkAfter = [],
     AllowedExit = [], MaskedOp = [], PSE = (), HasFunNoNaNAttr = False,
     Hints = initialHints exConfig False,
     Requirements = \<lparr>NumRuntimePointerChecks = 0, UnsafeAlgebraInst = None\<rparr>,
     ORE = []\<rparr>"

text \<open>The loop metadata with a width of 1 and an interleave count of 1.\<close>

definition widthInterleaveOne :: loop_id where
  "widthInterleaveOne =
     Some [MDNode [MDString ''llvm.loop.vectorize.width'', ConstantInt 1],
           MDNode [MDString ''llvm.loop.interleave.count'', ConstantInt 1]]"



definition exValue :: "val \<Rightarrow> Operand" where
  "exValue V = \<lparr>opValue = V, opIsConstant = False, opCanTrap = False, opIsNullValue = False\<rparr>"

text \<open>An unconditional branch; the other example instructions are variations of it.\<close>

definition exBr :: Instruction where
  "exBr = \<lparr>ident = 100, opcode = Br, getType = VoidTy, operands = [], incomingBlocks = [],
     mayReadFromMemory = False, mayWriteToMemory = False, mayThrow = False, isFast = False,
     getPointerOperand = 0, getValueOperandType = VoidTy, isDbgInfoIntrinsic = False,
     getCalledFunction = None, getNumArgOperands = 0, isConditional = False, getCondition = 0,
     getSuccessor0 = 0, getSuccessor1 = 0\<rparr>"

text \<open>A load from the address 7, a store to the address 8, and a call that may throw.\<close>

definition exLoad :: Instruction where
  "exLoad = exBr\<lparr>ident := 5, opcode := Load, getType := IntegerTy 32,
     operands := [exValue 7], mayReadFromMemory := True, getPointerOperand := 7\<rparr>"

definition exStore :: Instruction where
  "exStore = exBr\<lparr>ident := 6, opcode := Store, operands := [exValue 5, exValue 8],
     mayWriteToMemory := True, getPointerOperand := 8, getValueOperandType := IntegerTy 32\<rparr>"

definition exThrowingCall :: Instruction where
  "exThrowingCall = exBr\<lparr>ident := 9, opcode := Call, mayThrow := True\<rparr>"

text \<open>A volatile load from the address 7: a load that may also write to memory.\<close>

definition exVolatileLoad :: Instruction where
  "exVolatileLoad = exBr\<lparr>ident := 1, opcode := Load, getType := IntegerTy 32,
     operands := [exValue 7], mayReadFromMemory := True, mayWriteToMemory := True,
     getPointerOperand := 7\<rparr>"

text \<open>
  A phi with the value 50 from the block 10 and the value 3 from the block 1, one with a
  third incoming value, one whose value from the block 10 is a constant expression that
  can trap, and one of a vector type.
\<close>

definition exPhi :: Instruction where
  "exPhi = exBr\<lparr>ident := 2, opcode := PHI, getType := IntegerTy 32,
     operands := [exValue 50, exValue 3], incomingBlocks := [10, 1]\<rparr>"

definition exPhi3 :: Instruction where
  "exPhi3 = exPhi\<lparr>operands := [exValue 50, exValue 3, exValue 4], incomingBlocks := [10, 1, 1]\<rparr>"

definition exTrapPhi :: Instruction where
  "exTrapPhi = exPhi\<lparr>operands :=
     [\<lparr>opValue = 50, opIsConstant = True, opCanTrap = True, opIsNullValue = False\<rparr>, exValue 3]\<rparr>"

definition exVectorPhi :: Instruction where
  "exVectorPhi = exPhi\<lparr>getType := OtherTy 0\<rparr>"

definition exBlock :: "bb \<Rightarrow> Instruction list \<Rightarrow> BasicBlock" where
  "exBlock b Is = \<lparr>bid = b, body = Is, getTerminator = exBr\<lparr>ident := 100 + b\<rparr>\<rparr>"

text \<open>
  A loop without sub-loops, of the given header and blocks, in the shape the checker asks
  for: the last block is the latch and the exiting block.
\<close>

definition exLoopOf :: "BasicBlock \<Rightarrow> BasicBlock list \<Rightarrow> Loop" where
  "exLoopOf H BBs = Loop \<lparr>getHeader = H, getLoopPreheader = Some 10, getNumBackEdges = 1,
     getExitingBlock = Some (bid (last BBs)), getLoopLatch = Some (last BBs), blocks = BBs,
     getCanonicalInductionVariable = None, isAnnotatedParallel = False,
     isLoopInvariant = (\<lambda>V. False)\<rparr> []"

text \<open>The same loop of one block, without a preheader.\<close>

definition exNoPreheader :: Loop where
  "exNoPreheader = Loop \<lparr>getHeader = exBlock 0 [], getLoopPreheader = None, getNumBackEdges = 1,
     getExitingBlock = Some 0, getLoopLatch = Some (exBlock 0 []), blocks = [exBlock 0 []],
     getCanonicalInductionVariable = None, isAnnotatedParallel = False,
     isLoopInvariant = (\<lambda>V. False)\<rparr> []"

text \<open>A reduction and an induction descriptor.\<close>

definition exRedDes :: RecurrenceDescriptor where
  "exRedDes = \<lparr>RD_hasUnsafeAlgebra = False, RD_getUnsafeAlgebraInst = None, getLoopExitInstr = 3\<rparr>"

definition exID :: InductionDescriptor where
  "exID = \<lparr>getKind = IK_IntInduction,
     getStartValue = \<lparr>opValue = 50, opIsConstant = True, opCanTrap = False, opIsNullValue = True\<rparr>,
     getConstIntStepValue = Some 1, getCastInsts = [],
     ID_hasUnsafeAlgebra = False, ID_getUnsafeAlgebraInst = None\<rparr>"

text \<open>
  The loop of one block that counts from 0 in steps of 1, loads, adds and stores, with
  collaborators that take its phi for that induction.
\<close>

definition exInductionAnalyses :: "unit analyses" where
  "exInductionAnalyses = exAnalyses\<lparr>isInductionPHI := (\<lambda>Phi pse Assume. (Some exID, pse))\<rparr>"

definition exAdd :: Instruction where
  "exAdd = exBr\<lparr>ident := 3, opcode := BinaryOp, getType := IntegerTy 32,
     operands := [exValue 2, exValue 60]\<rparr>"

definition exCanonicalLoop :: Loop where
  "exCanonicalLoop = exLoopOf (exBlock 1 [exPhi, exLoad, exAdd, exStore])
                       [exBlock 1 [exPhi, exLoad, exAdd, exStore]]"

text \<open>
  The same collaborators, where the phi has the user 20 and the add the user 21 outside the
  loop, besides each other.
\<close>

definition exLiveOutAnalyses :: "unit analyses" where
  "exLiveOutAnalyses =
     exInductionAnalyses\<lparr>users := (\<lambda>V. if V = 2 then [3, 20] else if V = 3 then [2, 21] else []),
                          getParent := (\<lambda>V. if V = 2 \<or> V = 3 then 1 else 0)\<rparr>"

section \<open>Properties\<close>

subsection \<open>Auxiliary facts\<close>

lemma option_case_const: "(case x of None \<Rightarrow> a | Some y \<Rightarrow> a) = a"
  by (cases x) simp_all

lemma set_insertPtr [simp]: "set (insertPtr x xs) = insert x (set xs)"
  by (auto simp add: insertPtr_def)

lemmas sel_distrib =
  if_distrib[of AllowedExit] if_distrib[of PSE]
  if_distrib[of Inductions] if_distrib[of Reductions] if_distrib[of FirstOrderRecurrences]
  option.case_distrib[of AllowedExit] option.case_distrib[of PSE]
  option.case_distrib[of Inductions] option.case_distrib[of Reductions]
  option.case_distrib[of FirstOrderRecurrences]
  option_case_const

subsection \<open>A loop that the analysis accepts\<close>

text \<open>
  The canonical loop of one block is legal: \<open>canVectorize\<close> returns true without a remark,
  with the phi as the one induction, no reduction and no masked operation; and its tail
  can then be folded by masking, with the load and the store masked.
\<close>

lemma canonical_loop_accepted:
  "fst (canVectorize exConfig exInductionAnalyses exCanonicalLoop exState)
   \<and> map fst (Inductions (snd (canVectorize exConfig exInductionAnalyses exCanonicalLoop exState)))
       = [ident exPhi]
   \<and> Reductions (snd (canVectorize exConfig exInductionAnalyses exCanonicalLoop exState)) = []
   \<and> MaskedOp (snd (canVectorize exConfig exInductionAnalyses exCanonicalLoop exState)) = []
   \<and> ORE (snd (canVectorize exConfig exInductionAnalyses exCanonicalLoop exState)) = []"
  by code_simp

lemma canonical_loop_tail_folded:
  "fst (canFoldTailByMasking exInductionAnalyses exCanonicalLoop
          (snd (canVectorize exConfig exInductionAnalyses exCanonicalLoop exState)))
   \<and> set (MaskedOp (snd (canFoldTailByMasking exInductionAnalyses exCanonicalLoop
          (snd (canVectorize exConfig exInductionAnalyses exCanonicalLoop exState)))))
       = {ident exLoad, ident exStore}"
  by code_simp

text \<open>
  When the phi and the add of that loop are used after the loop, the loop is legal, the
  allowed exits are the phi and then the add, and the tail cannot be folded: the remark
  names the user of the phi, the first user outside the loop of the first allowed exit.
\<close>

lemma canonical_loop_live_out:
  "fst (canVectorize exConfig exLiveOutAnalyses exCanonicalLoop exState)
   \<and> AllowedExit (snd (canVectorize exConfig exLiveOutAnalyses exCanonicalLoop exState))
       = [ident exPhi, ident exAdd]
   \<and> \<not> fst (canFoldTailByMasking exLiveOutAnalyses exCanonicalLoop
          (snd (canVectorize exConfig exLiveOutAnalyses exCanonicalLoop exState)))
   \<and> map (\<lambda>r. (rName r, rInst r))
         (ORE (snd (canFoldTailByMasking exLiveOutAnalyses exCanonicalLoop
            (snd (canVectorize exConfig exLiveOutAnalyses exCanonicalLoop exState)))))
       = [(''LiveOutFoldingTailByMasking'', Some 20)]"
  by code_simp

subsection \<open>Loop hints\<close>

lemma scan_widthInterleaveOne:
  "1 \<le> MaxVectorWidth C \<Longrightarrow>
   getHintsFromMetadata C widthInterleaveOne (initialHints C b) =
     (initialHints C b)\<lparr>Width := (Width (initialHints C b))\<lparr>Value := 1\<rparr>,
                        Interleave := (Interleave (initialHints C b))\<lparr>Value := 1\<rparr>\<rparr>"
  by (simp add: getHintsFromMetadata_def widthInterleaveOne_def scanOperand_def setHint_def
      startswith_def Prefix_def initialHints_def validate_def isPowerOf2_32_def
      MaxInterleaveFactor_def Let_def)

text \<open>
  Claim C7, as amended. When the scan of the metadata has not left the already-vectorized
  hint at 1, the constructor derives it from the width and the interleave count it holds:
  it is 1 if both are 1, and 0 otherwise. In particular, for the metadata with a width of 1
  and an interleave count of 1 and no \<open>isvectorized\<close> entry, \<open>getIsVectorized\<close> is 1,
  provided that the interleave count is not forced on the command line to another value
  than 1 (and the maximal vector width is at least 1, so that the width of 1 is valid).
\<close>

theorem C7_isVectorized_derived:
  "(Value (IsVectorized (getHintsFromMetadata C LoopID (initialHints C b))) \<noteq> 1 \<longrightarrow>
      getIsVectorized (newLoopVectorizeHints C LoopID b) =
        (if getWidth (newLoopVectorizeHints C LoopID b) = 1 \<and>
            getInterleave (newLoopVectorizeHints C LoopID b) = 1 then 1 else 0))
   \<and> (1 \<le> MaxVectorWidth C \<and> (isInterleaveForced C \<longrightarrow> VectorizationInterleave C = 1) \<longrightarrow>
      getIsVectorized (newLoopVectorizeHints C widthInterleaveOne b) = 1)"
proof (intro conjI impI)
  assume "Value (IsVectorized (getHintsFromMetadata C LoopID (initialHints C b))) \<noteq> 1"
  then show "getIsVectorized (newLoopVectorizeHints C LoopID b) =
        (if getWidth (newLoopVectorizeHints C LoopID b) = 1 \<and>
            getInterleave (newLoopVectorizeHints C LoopID b) = 1 then 1 else 0)"
    by (simp add: newLoopVectorizeHints_def Let_def getIsVectorized_def getWidth_def
        getInterleave_def)
next
  assume "1 \<le> MaxVectorWidth C \<and> (isInterleaveForced C \<longrightarrow> VectorizationInterleave C = 1)"
  then show "getIsVectorized (newLoopVectorizeHints C widthInterleaveOne b) = 1"
    by (clarsimp simp add: newLoopVectorizeHints_def Let_def getIsVectorized_def
        scan_widthInterleaveOne)
qed

theorem C7_isVectorized_derived_witness:
  "Value (IsVectorized (getHintsFromMetadata exConfig widthInterleaveOne
                          (initialHints exConfig False))) \<noteq> 1
   \<and> 1 \<le> MaxVectorWidth exConfig \<and> \<not> isInterleaveForced exConfig
   \<and> getWidth (newLoopVectorizeHints exConfig widthInterleaveOne False) = 1
   \<and> getInterleave (newLoopVectorizeHints exConfig widthInterleaveOne False) = 1
   \<and> getIsVectorized (newLoopVectorizeHints exConfig widthInterleaveOne False) = 1"
proof -
  have m: "1 \<le> MaxVectorWidth exConfig" by (simp add: exConfig_def)
  have f: "\<not> isInterleaveForced exConfig" by (simp add: exConfig_def)
  have s: "Value (IsVectorized (getHintsFromMetadata exConfig widthInterleaveOne
                                  (initialHints exConfig False))) \<noteq> 1"
    by (simp add: scan_widthInterleaveOne[OF m]) (simp add: initialHints_def)
  have w: "getWidth (newLoopVectorizeHints exConfig widthInterleaveOne False) = 1"
    using f by (simp add: newLoopVectorizeHints_def Let_def getWidth_def
        scan_widthInterleaveOne[OF m])
  have i: "getInterleave (newLoopVectorizeHints exConfig widthInterleaveOne False) = 1"
    using f by (simp add: newLoopVectorizeHints_def Let_def getInterleave_def
        scan_widthInterleaveOne[OF m])
  from C7_isVectorized_derived[of exConfig widthInterleaveOne False] m f s w i
  show ?thesis by simp
qed

text \<open>
  The claim as it is stated fails where the interleave count is forced: with
  \<open>force-vector-interleave\<close> at 4, the metadata with a width of 1 and an interleave count
  of 1 leaves the already-vectorized flag at 0.
\<close>

theorem C7_counterexample:
  "getIsVectorized (newLoopVectorizeHints
      (exConfig\<lparr>isInterleaveForced := True, VectorizationInterleave := 4\<rparr>)
      widthInterleaveOne False) \<noteq> 1"
proof -
  have "1 \<le> MaxVectorWidth (exConfig\<lparr>isInterleaveForced := True, VectorizationInterleave := 4\<rparr>)"
    by (simp add: exConfig_def)
  then show ?thesis
    by (simp add: newLoopVectorizeHints_def Let_def getIsVectorized_def scan_widthInterleaveOne)
       (simp add: initialHints_def exConfig_def)
qed








subsection \<open>Requirements\<close>

text \<open>
  Claim C4. \<open>doesNotMeet\<close> returns true if and only if an unsafe-algebra instruction was
  recorded and the hints do not allow reordering, or the number of runtime pointer checks
  exceeds the pragma threshold, or exceeds the normal threshold while the hints do not
  allow reordering. Neither test depends on the other: the remarks emitted are the one of
  the first condition where it holds, followed by the one of the second where it holds, so
  that both are emitted in one call when both hold.
\<close>

theorem C4_doesNotMeet:
  "fst (doesNotMeet C A H R ore0) =
     ((UnsafeAlgebraInst R \<noteq> None \<and> \<not> allowReordering A H) \<or>
      (NumRuntimePointerChecks R > PragmaVectorizeMemoryCheckThreshold C \<or>
       (NumRuntimePointerChecks R > RuntimeMemoryCheckThreshold C \<and> \<not> allowReordering A H)))
   \<and> map rName (snd (doesNotMeet C A H R ore0)) =
       map rName ore0
       @ (if UnsafeAlgebraInst R \<noteq> None \<and> \<not> allowReordering A H then [''CantReorderFPOps''] else [])
       @ (if NumRuntimePointerChecks R > PragmaVectorizeMemoryCheckThreshold C \<or>
             (NumRuntimePointerChecks R > RuntimeMemoryCheckThreshold C \<and> \<not> allowReordering A H)
          then [''CantReorderMemOps''] else [])"
  by (auto simp add: doesNotMeet_def Let_def)

theorem C4_doesNotMeet_witness:
  "fst (doesNotMeet exConfig exAnalyses (initialHints exConfig False)
          \<lparr>NumRuntimePointerChecks = 9, UnsafeAlgebraInst = Some 5\<rparr> [])
   \<and> map rName (snd (doesNotMeet exConfig exAnalyses (initialHints exConfig False)
          \<lparr>NumRuntimePointerChecks = 9, UnsafeAlgebraInst = Some 5\<rparr> []))
       = [''CantReorderFPOps'', ''CantReorderMemOps'']
   \<and> \<not> fst (doesNotMeet exConfig exAnalyses (initialHints exConfig False)
          \<lparr>NumRuntimePointerChecks = 8, UnsafeAlgebraInst = None\<rparr> [])"
  using C4_doesNotMeet[of exConfig exAnalyses "initialHints exConfig False"
          "\<lparr>NumRuntimePointerChecks = 9, UnsafeAlgebraInst = Some 5\<rparr>" "[]"]
        C4_doesNotMeet[of exConfig exAnalyses "initialHints exConfig False"
          "\<lparr>NumRuntimePointerChecks = 8, UnsafeAlgebraInst = None\<rparr>" "[]"]
  by (simp add: exConfig_def exAnalyses_def initialHints_def FK_Undefined_def FK_Enabled_def)

subsection \<open>Shape of the control flow graph\<close>

lemma canVectorizeLoopCFG_ok:
  "fst (canVectorizeLoopCFG A Lp S) \<Longrightarrow> cfgUnderstood Lp"
  by (simp add: canVectorizeLoopCFG_def cfgUnderstood_def Let_def split: if_splits)

lemma nestCFG_all:
  "(fst (canVectorizeLoopNestCFG A TheLoop S) \<longrightarrow>
      (\<forall>Lp \<in> set (loopNest TheLoop). cfgUnderstood Lp))"
  "(fst (canVectorizeSubLoopsCFG A Ls Result S) \<longrightarrow>
      Result \<and> (\<forall>L \<in> set Ls. \<forall>Lp \<in> set (loopNest L). cfgUnderstood Lp))"
proof (induction A TheLoop S and A Ls Result S
       rule: canVectorizeLoopNestCFG_canVectorizeSubLoopsCFG.induct)
  case (1 A d subs S0)
  show ?case
  proof
    assume ok: "fst (canVectorizeLoopNestCFG A (Loop d subs) S0)"
    obtain ok1 S1 where r: "canVectorizeLoopCFG A (Loop d subs) S0 = (ok1, S1)"
      by (cases "canVectorizeLoopCFG A (Loop d subs) S0")
    from ok r have sub: "fst (canVectorizeSubLoopsCFG A subs (if \<not> ok1 then False else True) S1)"
      by (auto split: if_splits)
    with "1.IH"[OF r[symmetric]] ok r
    have IH: "(if \<not> ok1 then False else True) \<and>
        (\<forall>L \<in> set subs. \<forall>Lp \<in> set (loopNest L). cfgUnderstood Lp)"
      by (auto split: if_splits)
    then have ok1: ok1 by (auto split: if_splits)
    with r have "fst (canVectorizeLoopCFG A (Loop d subs) S0)" by simp
    then have "cfgUnderstood (Loop d subs)" by (rule canVectorizeLoopCFG_ok)
    with IH show "\<forall>Lp \<in> set (loopNest (Loop d subs)). cfgUnderstood Lp"
      by auto
  qed
next
  case (2 A Result S)
  show ?case by simp
next
  case (3 A SubLp Ls Result S)
  show ?case
  proof
    assume ok: "fst (canVectorizeSubLoopsCFG A (SubLp # Ls) Result S)"
    obtain ok1 S1 where r: "canVectorizeLoopNestCFG A SubLp S = (ok1, S1)"
      by (cases "canVectorizeLoopNestCFG A SubLp S")
    from ok r have rest: "fst (canVectorizeSubLoopsCFG A Ls (if \<not> ok1 then False else Result) S1)"
      by (auto split: if_splits)
    with ok r "3.IH"(2)[OF r[symmetric]]
    have IH2: "(if \<not> ok1 then False else Result) \<and>
        (\<forall>L \<in> set Ls. \<forall>Lp \<in> set (loopNest L). cfgUnderstood Lp)"
      by (auto split: if_splits)
    then have ok1: ok1 and res: Result by (auto split: if_splits)
    from "3.IH"(1) r ok1 have "\<forall>Lp \<in> set (loopNest SubLp). cfgUnderstood Lp" by simp
    with IH2 res
    show "Result \<and> (\<forall>L \<in> set (SubLp # Ls). \<forall>Lp \<in> set (loopNest L). cfgUnderstood Lp)"
      by auto
  qed
qed

lemma canVectorize_needs_nestCFG:
  "fst (canVectorize C A TheLoop S0) \<Longrightarrow> fst (canVectorizeLoopNestCFG A TheLoop S0)"
  unfolding canVectorize_def Let_def
  by (auto split: prod.splits if_splits)

text \<open>
  Claim C1. If a loop of the nest of the analysed loop (the loop itself, or a loop nested
  in it at any depth) has no preheader, or does not have exactly one back-edge, or has no
  single exiting block, or its exiting block is not its latch, then \<open>canVectorize\<close> returns
  false; whether or not extra analysis is allowed, and whatever the later checks find.
\<close>

theorem C1_cfg_not_understood:
  "Lp \<in> set (loopNest TheLoop) \<Longrightarrow>
   getLoopPreheader (info Lp) = None \<or> getNumBackEdges (info Lp) \<noteq> 1 \<or>
   getExitingBlock (info Lp) = None \<or>
   getExitingBlock (info Lp) \<noteq> map_option bid (getLoopLatch (info Lp)) \<Longrightarrow>
   \<not> fst (canVectorize C A TheLoop S0)"
  using canVectorize_needs_nestCFG[of C A TheLoop S0] nestCFG_all(1)[of A TheLoop S0]
  unfolding cfgUnderstood_def by blast

theorem C1_cfg_not_understood_witness:
  "exNoPreheader \<in> set (loopNest exNoPreheader)
   \<and> getLoopPreheader (info exNoPreheader) = None
   \<and> \<not> fst (canVectorize exConfig exAnalyses exNoPreheader exState)
   \<and> \<not> fst (canVectorize exConfig (exAnalyses\<lparr>allowExtraAnalysis := True\<rparr>) exNoPreheader exState)"
proof -
  have a: "exNoPreheader \<in> set (loopNest exNoPreheader)" by (simp add: exNoPreheader_def)
  have b: "getLoopPreheader (info exNoPreheader) = None" by (simp add: exNoPreheader_def)
  from a b C1_cfg_not_understood[OF a, of exConfig exAnalyses exState]
    C1_cfg_not_understood[OF a, of exConfig "exAnalyses\<lparr>allowExtraAnalysis := True\<rparr>" exState]
  show ?thesis by simp
qed

subsection \<open>The allowed exits only grow\<close>

lemma grows_refl: "allowedExitGrows S S"
  by (simp add: allowedExitGrows_def)

lemma grows_trans: "allowedExitGrows S T \<Longrightarrow> allowedExitGrows T U \<Longrightarrow> allowedExitGrows S U"
  by (auto simp add: allowedExitGrows_def)

lemma grows_eq: "AllowedExit T = AllowedExit S \<Longrightarrow> allowedExitGrows S T"
  by (simp add: allowedExitGrows_def)

lemma AE_report:
  "AllowedExit (reportVectorizationFailure A m t i S) = AllowedExit S"
  by (simp add: reportVectorizationFailure_def)

lemma AE_addInductionPhi:
  "AllowedExit (addInductionPhi A TheLoop Phi ID S) =
     (if isAlwaysTrue A (PSE S)
      then (case getIncomingValueForBlock Phi (map_option bid (getLoopLatch (info TheLoop))) of
              None \<Rightarrow> insertPtr (ident Phi) (AllowedExit S)
            | Some Inc \<Rightarrow> insertPtr Inc (insertPtr (ident Phi) (AllowedExit S)))
      else AllowedExit S)"
  by (simp add: addInductionPhi_def Let_def sel_distrib
      split del: if_split cong: if_cong option.case_cong)

lemma grows_addInductionPhi:
  "AllowedExit S' = AllowedExit S \<Longrightarrow> allowedExitGrows S (addInductionPhi A TheLoop Phi ID S')"
  by (auto simp add: allowedExitGrows_def AE_addInductionPhi split: option.splits)

lemma grows_setupOuter:
  "allowedExitGrows S (snd (setupOuterLoopInductionsPhis A TheLoop Phis S))"
proof (induction Phis arbitrary: S)
  case Nil
  show ?case by (simp add: grows_refl)
next
  case (Cons Phi Phis)
  obtain r pse1 where i: "isInductionPHI A Phi (PSE S) False = (r, pse1)"
    by (cases "isInductionPHI A Phi (PSE S) False")
  show ?case
  proof (cases r)
    case None
    with i show ?thesis by (simp add: allowedExitGrows_def)
  next
    case (Some ID)
    show ?thesis
    proof (cases "getKind ID = IK_IntInduction")
      case True
      have "allowedExitGrows S (addInductionPhi A TheLoop Phi ID (S\<lparr>PSE := pse1\<rparr>))"
        by (rule grows_addInductionPhi) simp
      from grows_trans[OF this Cons.IH] i Some True show ?thesis by simp
    next
      case False
      with i Some show ?thesis by (simp add: allowedExitGrows_def)
    qed
  qed
qed

lemma AE_outerLoopBlocks:
  "case_sum AllowedExit (\<lambda>RS. AllowedExit (snd RS)) (outerLoopBlocks C A TheLoop BBs Result S)
     = AllowedExit S"
proof (induction BBs arbitrary: Result S)
  case Nil
  then show ?case by simp
next
  case (Cons BB BBs)
  show ?case
    by (simp add: Let_def AE_report Cons.IH)
qed

lemma AE_loopCFG: "AllowedExit (snd (canVectorizeLoopCFG A Lp S)) = AllowedExit S"
  by (simp add: canVectorizeLoopCFG_def Let_def AE_report)

lemma AE_nestCFG:
  "AllowedExit (snd (canVectorizeLoopNestCFG A TheLoop S)) = AllowedExit S"
  "AllowedExit (snd (canVectorizeSubLoopsCFG A Ls Result S)) = AllowedExit S"
proof (induction A TheLoop S and A Ls Result S
       rule: canVectorizeLoopNestCFG_canVectorizeSubLoopsCFG.induct)
  case (1 A d subs S0)
  obtain ok1 S1 where r: "canVectorizeLoopCFG A (Loop d subs) S0 = (ok1, S1)"
    by (cases "canVectorizeLoopCFG A (Loop d subs) S0")
  have "AllowedExit S1 = AllowedExit S0" using AE_loopCFG[of A "Loop d subs" S0] r by simp
  with "1.IH"[OF r[symmetric]] r show ?case by (auto split: if_splits)
next
  case (2 A Result S)
  show ?case by simp
next
  case (3 A SubLp Ls Result S)
  obtain ok1 S1 where r: "canVectorizeLoopNestCFG A SubLp S = (ok1, S1)"
    by (cases "canVectorizeLoopNestCFG A SubLp S")
  have "AllowedExit S1 = AllowedExit S" using "3.IH"(1) r by simp
  with "3.IH"(2)[OF r[symmetric]] r show ?case by (auto split: if_splits)
qed

lemma grows_canVectorizeOuterLoop:
  "allowedExitGrows S (snd (canVectorizeOuterLoop C A TheLoop S))"
proof (cases "outerLoopBlocks C A TheLoop (blocks (info TheLoop)) True S")
  case (Inl S1)
  with AE_outerLoopBlocks[of C A TheLoop "blocks (info TheLoop)" True S]
  show ?thesis by (simp add: canVectorizeOuterLoop_def allowedExitGrows_def)
next
  case (Inr RS)
  obtain Result1 S1 where rs: "RS = (Result1, S1)" by (cases RS)
  with Inr AE_outerLoopBlocks[of C A TheLoop "blocks (info TheLoop)" True S]
  have e1: "AllowedExit S1 = AllowedExit S" by simp
  define S2 where "S2 = (if \<not> isUniformLoopNest A TheLoop TheLoop
      then reportVectorizationFailure A
        ''loop control flow is not understood by vectorizer'' ''CFGNotUnderstood'' None S1
      else S1)"
  have e2: "AllowedExit S2 = AllowedExit S" using e1 by (simp add: S2_def AE_report)
  obtain ok S3 where r3: "setupOuterLoopInductions A TheLoop S2 = (ok, S3)"
    by (cases "setupOuterLoopInductions A TheLoop S2")
  have g3: "allowedExitGrows S S3"
    using grows_setupOuter[of S2 A TheLoop "phis (getHeader (info TheLoop))"] r3 e2
    by (simp add: setupOuterLoopInductions_def allowedExitGrows_def)
  show ?thesis
    using Inr rs r3 g3 e2 e1
    by (simp add: canVectorizeOuterLoop_def Let_def S2_def[symmetric] allowedExitGrows_def AE_report)
qed


lemma grows_checkHeaderPhi:
  "allowedExitGrows S (snd (checkHeaderPhi A TheLoop Phi S))"
proof (cases "getNumIncomingValues Phi \<noteq> 2")
  case True
  then show ?thesis by (simp add: checkHeaderPhi_def allowedExitGrows_def AE_report)
next
  case two: False
  show ?thesis
  proof (cases "isReductionPHI A Phi")
    case (Some RedDes)
    with two show ?thesis
      by (auto simp add: checkHeaderPhi_def Let_def allowedExitGrows_def)
  next
    case None
    obtain r1 pse1 where i1: "isInductionPHI A Phi (PSE S) False = (r1, pse1)"
      by (cases "isInductionPHI A Phi (PSE S) False")
    show ?thesis
    proof (cases r1)
      case (Some ID)
      have "allowedExitGrows S (addInductionPhi A TheLoop Phi ID (S\<lparr>PSE := pse1\<rparr>))"
        by (rule grows_addInductionPhi) simp
      with two None i1 Some show ?thesis
        by (simp add: checkHeaderPhi_def Let_def allowedExitGrows_def)
    next
      case noInd: None
      obtain isFOR sink1 where f: "isFirstOrderRecurrence A Phi (SinkAfter S) = (isFOR, sink1)"
        by (cases "isFirstOrderRecurrence A Phi (SinkAfter S)")
      show ?thesis
      proof (cases isFOR)
        case True
        with two None i1 noInd f show ?thesis
          by (simp add: checkHeaderPhi_def allowedExitGrows_def)
      next
        case False
        obtain r2 pse2 where i2: "isInductionPHI A Phi pse1 True = (r2, pse2)"
          by (cases "isInductionPHI A Phi pse1 True")
        show ?thesis
        proof (cases r2)
          case None2: None
          with two None i1 noInd f False i2 show ?thesis
            by (simp add: checkHeaderPhi_def allowedExitGrows_def AE_report)
        next
          case (Some ID)
          have "allowedExitGrows S
                  (addInductionPhi A TheLoop Phi ID (S\<lparr>PSE := pse2, SinkAfter := sink1\<rparr>))"
            by (rule grows_addInductionPhi) simp
          with two None i1 noInd f False i2 Some show ?thesis
            by (simp add: checkHeaderPhi_def allowedExitGrows_def)
        qed
      qed
    qed
  qed
qed

lemma grows_checkNonPhi:
  "allowedExitGrows S (snd (checkNonPhi A TheLoop I S))"
  by (auto simp add: checkNonPhi_def Let_def allowedExitGrows_def AE_report)

lemma grows_checkInstr:
  "allowedExitGrows S (snd (checkInstr A TheLoop BB I S))"
  using grows_checkHeaderPhi[of S A TheLoop I] grows_checkNonPhi[of S A TheLoop I]
  by (simp add: checkInstr_def Let_def AE_report grows_refl grows_eq)

lemma grows_instrsOf:
  "allowedExitGrows S (snd (canVectorizeInstrsOf A TheLoop BB Is S))"
proof (induction Is arbitrary: S)
  case Nil
  show ?case by (simp add: grows_refl)
next
  case (Cons I Is)
  obtain ok S1 where r: "checkInstr A TheLoop BB I S = (ok, S1)"
    by (cases "checkInstr A TheLoop BB I S")
  with grows_checkInstr[of S A TheLoop BB I] have g: "allowedExitGrows S S1" by simp
  from grows_trans[OF g Cons.IH] g r show ?case by simp
qed

lemma grows_instrsBlocks:
  "allowedExitGrows S (snd (canVectorizeInstrsBlocks A TheLoop BBs S))"
proof (induction BBs arbitrary: S)
  case Nil
  show ?case by (simp add: grows_refl)
next
  case (Cons BB BBs)
  obtain ok S1 where r: "canVectorizeInstrsOf A TheLoop BB (instructions BB) S = (ok, S1)"
    by (cases "canVectorizeInstrsOf A TheLoop BB (instructions BB) S")
  with grows_instrsOf[of S A TheLoop BB "instructions BB"] have g: "allowedExitGrows S S1" by simp
  from grows_trans[OF g Cons.IH] g r show ?case by simp
qed

lemma grows_canVectorizeInstrs:
  "allowedExitGrows S (snd (canVectorizeInstrs A TheLoop S))"
proof -
  let ?S1 = "S\<lparr>HasFunNoNaNAttr := (noNansFpMath A = ''true'')\<rparr>"
  obtain ok S2 where r: "canVectorizeInstrsBlocks A TheLoop (blocks (info TheLoop)) ?S1 = (ok, S2)"
    by (cases "canVectorizeInstrsBlocks A TheLoop (blocks (info TheLoop)) ?S1")
  with grows_instrsBlocks[of ?S1 A TheLoop "blocks (info TheLoop)"]
  have "allowedExitGrows S S2" by (simp add: allowedExitGrows_def)
  with r show ?thesis
    by (simp add: canVectorizeInstrs_def Let_def allowedExitGrows_def AE_report split: option.splits)
qed


lemma AE_canVectorizeMemory:
  "AllowedExit (snd (canVectorizeMemory A S)) = AllowedExit S"
  by (simp add: canVectorizeMemory_def Let_def AE_report split: option.splits)

lemma AE_blockCanBePredicatedInstrs:
  "AllowedExit (snd (blockCanBePredicatedInstrs par Safe Is S)) = AllowedExit S"
  by (induction Is arbitrary: S par) simp_all

lemma AE_blockCanBePredicated:
  "AllowedExit (snd (blockCanBePredicated TheLoop BB Safe S)) = AllowedExit S"
  by (simp add: blockCanBePredicated_def AE_blockCanBePredicatedInstrs)

lemma AE_ifConvertBlocks:
  "AllowedExit (snd (ifConvertBlocks A TheLoop Safe BBs S)) = AllowedExit S"
proof (induction BBs arbitrary: S)
  case Nil
  show ?case by simp
next
  case (Cons BB BBs)
  obtain ok S1 where r: "blockCanBePredicated TheLoop BB Safe S = (ok, S1)"
    by (cases "blockCanBePredicated TheLoop BB Safe S")
  with AE_blockCanBePredicated[of TheLoop BB Safe S] have "AllowedExit S1 = AllowedExit S" by simp
  with r show ?case by (simp add: AE_report Cons.IH)
qed

lemma AE_canVectorizeWithIfConvert:
  "AllowedExit (snd (canVectorizeWithIfConvert C A TheLoop S)) = AllowedExit S"
  by (simp add: canVectorizeWithIfConvert_def AE_report AE_ifConvertBlocks)

lemma AE_foldTailBlocks:
  "AllowedExit (snd (foldTailBlocks A TheLoop BBs S)) = AllowedExit S"
proof (induction BBs arbitrary: S)
  case Nil
  show ?case by simp
next
  case (Cons BB BBs)
  obtain ok S1 where r: "blockCanBePredicated TheLoop BB [] S = (ok, S1)"
    by (cases "blockCanBePredicated TheLoop BB [] S")
  with AE_blockCanBePredicated[of TheLoop BB "[]" S] have "AllowedExit S1 = AllowedExit S" by simp
  with r show ?case by (simp add: AE_report Cons.IH)
qed

lemma AE_canFoldTailByMasking:
  "AllowedExit (snd (canFoldTailByMasking A TheLoop S)) = AllowedExit S"
  by (simp add: canFoldTailByMasking_def AE_report AE_foldTailBlocks split: option.splits)

lemma grows_canVectorize:
  "allowedExitGrows S0 (snd (canVectorize C A TheLoop S0))"
proof -
  obtain ok1 S1 where r1: "canVectorizeLoopNestCFG A TheLoop S0 = (ok1, S1)"
    by (cases "canVectorizeLoopNestCFG A TheLoop S0")
  with AE_nestCFG(1)[of A TheLoop S0] have e1: "AllowedExit S1 = AllowedExit S0" by simp
  show ?thesis
  proof (cases "getSubLoops TheLoop \<noteq> []")
    case True
    obtain okO S2 where r2: "canVectorizeOuterLoop C A TheLoop S1 = (okO, S2)"
      by (cases "canVectorizeOuterLoop C A TheLoop S1")
    with grows_canVectorizeOuterLoop[of S1 C A TheLoop] e1
    have "set (AllowedExit S0) \<subseteq> set (AllowedExit S2)" by (simp add: allowedExitGrows_def)
    with True r1 r2 e1 show ?thesis
      by (simp add: canVectorize_def Let_def allowedExitGrows_def AE_report)
  next
    case False
    define R2 where "R2 = (if length (blocks (info TheLoop)) \<noteq> 1
                           then canVectorizeWithIfConvert C A TheLoop S1 else (True, S1))"
    obtain ok2 S2 where r2: "R2 = (ok2, S2)" by (cases R2)
    have e2: "AllowedExit S2 = AllowedExit S0"
      using r2 e1 AE_canVectorizeWithIfConvert[of C A TheLoop S1]
      by (auto simp add: R2_def split: if_splits)
    obtain ok3 S3 where r3: "canVectorizeInstrs A TheLoop S2 = (ok3, S3)"
      by (cases "canVectorizeInstrs A TheLoop S2")
    with grows_canVectorizeInstrs[of S2 A TheLoop] e2
    have g3: "set (AllowedExit S0) \<subseteq> set (AllowedExit S3)" by (simp add: allowedExitGrows_def)
    obtain ok4 S4 where r4: "canVectorizeMemory A S3 = (ok4, S4)"
      by (cases "canVectorizeMemory A S3")
    with AE_canVectorizeMemory[of A S3] have e4: "AllowedExit S4 = AllowedExit S3" by simp
    show ?thesis
    proof (cases "length (blocks (info TheLoop)) = 1")
      case one: True
      with r2 have "ok2 = True" "S2 = S1" by (simp_all add: R2_def)
      with one False r1 r3 r4 e1 e2 g3 e4 show ?thesis
        by (simp add: canVectorize_def Let_def allowedExitGrows_def AE_report)
    next
      case many: False
      with r2 have "canVectorizeWithIfConvert C A TheLoop S1 = (ok2, S2)" by (simp add: R2_def)
      with many False r1 r3 r4 e1 e2 g3 e4 show ?thesis
        by (simp add: canVectorize_def Let_def allowedExitGrows_def AE_report)
    qed
  qed
qed

text \<open>
  Claim C9. No operation of the analysis removes an element from \<open>AllowedExit\<close>: every
  value allowed before \<open>addInductionPhi\<close>, before the check of one instruction (which
  records reduction exits, induction phis and their increments, and instructions allowed
  retroactively), before \<open>canVectorizeInstrs\<close>, \<open>setupOuterLoopInductions\<close>,
  \<open>canVectorizeOuterLoop\<close>, \<open>canVectorizeLoopNestCFG\<close>, \<open>blockCanBePredicated\<close>,
  \<open>canVectorizeWithIfConvert\<close>, \<open>canVectorizeMemory\<close>, \<open>canVectorize\<close> or
  \<open>canFoldTailByMasking\<close> is still allowed after it.
\<close>

theorem C9_allowedExit_monotone:
  "set (AllowedExit S) \<subseteq> set (AllowedExit (addInductionPhi A TheLoop Phi ID S))
   \<and> set (AllowedExit S) \<subseteq> set (AllowedExit (snd (checkInstr A TheLoop BB I S)))
   \<and> set (AllowedExit S) \<subseteq> set (AllowedExit (snd (canVectorizeInstrs A TheLoop S)))
   \<and> set (AllowedExit S) \<subseteq> set (AllowedExit (snd (setupOuterLoopInductions A TheLoop S)))
   \<and> set (AllowedExit S) \<subseteq> set (AllowedExit (snd (canVectorizeOuterLoop C A TheLoop S)))
   \<and> set (AllowedExit S) \<subseteq> set (AllowedExit (snd (canVectorizeLoopNestCFG A TheLoop S)))
   \<and> set (AllowedExit S) \<subseteq> set (AllowedExit (snd (blockCanBePredicated TheLoop BB SafePtrs S)))
   \<and> set (AllowedExit S) \<subseteq> set (AllowedExit (snd (canVectorizeWithIfConvert C A TheLoop S)))
   \<and> set (AllowedExit S) \<subseteq> set (AllowedExit (snd (canVectorizeMemory A S)))
   \<and> set (AllowedExit S) \<subseteq> set (AllowedExit (snd (canVectorize C A TheLoop S)))
   \<and> set (AllowedExit S) \<subseteq> set (AllowedExit (snd (canFoldTailByMasking A TheLoop S)))"
  using grows_addInductionPhi[of S S A TheLoop Phi ID] grows_checkInstr[of S A TheLoop BB I]
    grows_canVectorizeInstrs[of S A TheLoop] grows_canVectorizeOuterLoop[of S C A TheLoop]
    grows_canVectorize[of S C A TheLoop]
    grows_setupOuter[of S A TheLoop "phis (getHeader (info TheLoop))"]
  by (simp add: allowedExitGrows_def AE_canVectorizeWithIfConvert AE_canVectorizeMemory
      AE_canFoldTailByMasking AE_nestCFG AE_blockCanBePredicated setupOuterLoopInductions_def)

theorem C9_allowedExit_monotone_witness:
  "9 \<in> set (AllowedExit (exState\<lparr>AllowedExit := [9]\<rparr>))
   \<and> 9 \<in> set (AllowedExit (snd (canVectorize exConfig exAnalyses
                (exLoopOf (exBlock 0 [exPhi, exLoad]) [exBlock 0 [exPhi, exLoad]])
                (exState\<lparr>AllowedExit := [9]\<rparr>))))
   \<and> 9 \<in> set (AllowedExit (snd (canFoldTailByMasking exAnalyses
                (exLoopOf (exBlock 0 [exPhi, exLoad]) [exBlock 0 [exPhi, exLoad]])
                (exState\<lparr>AllowedExit := [9]\<rparr>))))"
proof -
  have "9 \<in> set (AllowedExit (exState\<lparr>AllowedExit := [9]\<rparr>))" by simp
  with C9_allowedExit_monotone[of "exState\<lparr>AllowedExit := [9]\<rparr>" exAnalyses
      "exLoopOf (exBlock 0 [exPhi, exLoad]) [exBlock 0 [exPhi, exLoad]]" exPhi exID
      "exBlock 0 [exPhi, exLoad]" exPhi exConfig "[]"]
  show ?thesis by blast
qed

text \<open>
  Claim C10. When a phi is recorded as an induction, \<open>addInductionPhi\<close> adds the phi and
  its incoming value from the latch to \<open>AllowedExit\<close> if the union predicate is always
  true at that time, and nothing else; if the predicate is not always true, it leaves
  \<open>AllowedExit\<close> as it was, so that neither of the two is allowed an outside user by it.
\<close>

theorem C10_induction_exits:
  "getIncomingValueForBlock Phi (map_option bid (getLoopLatch (info TheLoop))) = Some Inc \<Longrightarrow>
   (isAlwaysTrue A (PSE S) \<longrightarrow>
      set (AllowedExit (addInductionPhi A TheLoop Phi ID S)) =
        {ident Phi, Inc} \<union> set (AllowedExit S))
   \<and> (\<not> isAlwaysTrue A (PSE S) \<longrightarrow>
      AllowedExit (addInductionPhi A TheLoop Phi ID S) = AllowedExit S)"
  by (auto simp add: AE_addInductionPhi)

theorem C10_induction_exits_witness:
  "getIncomingValueForBlock exPhi
     (map_option bid (getLoopLatch (info (exLoopOf (exBlock 1 [exPhi]) [exBlock 1 [exPhi]]))))
     = Some 3
   \<and> isAlwaysTrue exAnalyses (PSE exState)
   \<and> set (AllowedExit (addInductionPhi exAnalyses
            (exLoopOf (exBlock 1 [exPhi]) [exBlock 1 [exPhi]]) exPhi exID exState)) = {2, 3}
   \<and> \<not> isAlwaysTrue (exAnalyses\<lparr>isAlwaysTrue := (\<lambda>pse. False)\<rparr>) (PSE exState)
   \<and> AllowedExit (addInductionPhi (exAnalyses\<lparr>isAlwaysTrue := (\<lambda>pse. False)\<rparr>)
            (exLoopOf (exBlock 1 [exPhi]) [exBlock 1 [exPhi]]) exPhi exID exState) = []"
proof -
  have i: "getIncomingValueForBlock exPhi
     (map_option bid (getLoopLatch (info (exLoopOf (exBlock 1 [exPhi]) [exBlock 1 [exPhi]]))))
     = Some 3"
    by (simp add: getIncomingValueForBlock_def exLoopOf_def exBlock_def exPhi_def exBr_def
        exValue_def)
  have t: "isAlwaysTrue exAnalyses (PSE exState)" by (simp add: exAnalyses_def)
  have f: "\<not> isAlwaysTrue (exAnalyses\<lparr>isAlwaysTrue := (\<lambda>pse. False)\<rparr>) (PSE exState)" by simp
  have e: "ident exPhi = 2" "AllowedExit exState = []"
    by (simp_all add: exPhi_def exBr_def exState_def)
  from C10_induction_exits[OF i, of exAnalyses exState exID] t
    C10_induction_exits[OF i, of "exAnalyses\<lparr>isAlwaysTrue := (\<lambda>pse. False)\<rparr>" exState exID] f i e
  show ?thesis by simp
qed

subsection \<open>Classification of the header phis\<close>

lemma maps_addInductionPhi:
  "Inductions (addInductionPhi A TheLoop Phi ID S) = AList.update (ident Phi) ID (Inductions S)"
  "Reductions (addInductionPhi A TheLoop Phi ID S) = Reductions S"
  "FirstOrderRecurrences (addInductionPhi A TheLoop Phi ID S) = FirstOrderRecurrences S"
  by (simp_all add: addInductionPhi_def Let_def sel_distrib
      split del: if_split cong: if_cong option.case_cong)

lemma maps_report:
  "Inductions (reportVectorizationFailure A m t i S) = Inductions S"
  "Reductions (reportVectorizationFailure A m t i S) = Reductions S"
  "FirstOrderRecurrences (reportVectorizationFailure A m t i S) = FirstOrderRecurrences S"
  by (simp_all add: reportVectorizationFailure_def)

lemma checkHeaderPhi_class:
  assumes two: "getNumIncomingValues Phi = 2"
  shows "recordedAs (classificationBySpec A Phi S) Phi S (checkHeaderPhi A TheLoop Phi S)"
proof (cases "isReductionPHI A Phi")
  case (Some RedDes)
  with two show ?thesis
    by (simp add: recordedAs_def classificationBySpec_def checkHeaderPhi_def Let_def update_conv')
next
  case None
  obtain r1 pse1 where i1: "isInductionPHI A Phi (PSE S) False = (r1, pse1)"
    by (cases "isInductionPHI A Phi (PSE S) False")
  show ?thesis
  proof (cases r1)
    case (Some ID)
    with two None i1 show ?thesis
      by (simp add: recordedAs_def classificationBySpec_def checkHeaderPhi_def Let_def maps_addInductionPhi
          update_conv')
  next
    case noInd: None
    obtain isFOR sink1 where f: "isFirstOrderRecurrence A Phi (SinkAfter S) = (isFOR, sink1)"
      by (cases "isFirstOrderRecurrence A Phi (SinkAfter S)")
    show ?thesis
    proof (cases isFOR)
      case True
      with two None i1 noInd f show ?thesis
        by (simp add: recordedAs_def classificationBySpec_def checkHeaderPhi_def)
    next
      case False
      obtain r2 pse2 where i2: "isInductionPHI A Phi pse1 True = (r2, pse2)"
        by (cases "isInductionPHI A Phi pse1 True")
      show ?thesis
      proof (cases r2)
        case None2: None
        with two None i1 noInd f False i2 show ?thesis
          by (simp add: recordedAs_def classificationBySpec_def checkHeaderPhi_def maps_report)
      next
        case (Some ID)
        with two None i1 noInd f False i2 show ?thesis
          by (simp add: recordedAs_def classificationBySpec_def checkHeaderPhi_def maps_addInductionPhi
              update_conv')
      qed
    qed
  qed
qed

lemma checkInstr_bad_phi:
  "opcode Phi = PHI \<Longrightarrow> bid BB = bid (getHeader (info TheLoop)) \<Longrightarrow>
   getNumIncomingValues Phi \<noteq> 2 \<Longrightarrow> \<not> fst (checkInstr A TheLoop BB Phi S)"
  by (simp add: checkInstr_def checkHeaderPhi_def Let_def)

lemma checkInstr_unclassifiable:
  "opcode Phi = PHI \<Longrightarrow> bid BB = bid (getHeader (info TheLoop)) \<Longrightarrow>
   isReductionPHI A Phi = None \<Longrightarrow> (\<forall>pse Assume. fst (isInductionPHI A Phi pse Assume) = None) \<Longrightarrow>
   (\<forall>sink. \<not> fst (isFirstOrderRecurrence A Phi sink)) \<Longrightarrow>
   \<not> fst (checkInstr A TheLoop BB Phi S)"
proof -
  assume a: "opcode Phi = PHI" "bid BB = bid (getHeader (info TheLoop))"
    "isReductionPHI A Phi = None" "\<forall>pse Assume. fst (isInductionPHI A Phi pse Assume) = None"
    "\<forall>sink. \<not> fst (isFirstOrderRecurrence A Phi sink)"
  obtain pse1 where i1: "isInductionPHI A Phi (PSE S) False = (None, pse1)"
    using a(4)[rule_format, of "PSE S" False]
    by (cases "isInductionPHI A Phi (PSE S) False") simp
  obtain sink1 where f: "isFirstOrderRecurrence A Phi (SinkAfter S) = (False, sink1)"
    using a(5)[rule_format, of "SinkAfter S"]
    by (cases "isFirstOrderRecurrence A Phi (SinkAfter S)") simp
  obtain pse2 where i2: "isInductionPHI A Phi pse1 True = (None, pse2)"
    using a(4)[rule_format, of pse1 True]
    by (cases "isInductionPHI A Phi pse1 True") simp
  from a(1,2,3) i1 f i2 show ?thesis
    by (simp add: checkInstr_def checkHeaderPhi_def Let_def)
qed

lemma instrsOf_fails:
  "I \<in> set Is \<Longrightarrow> (\<forall>S. \<not> fst (checkInstr A TheLoop BB I S)) \<Longrightarrow>
   \<not> fst (canVectorizeInstrsOf A TheLoop BB Is S)"
proof (induction Is arbitrary: S)
  case Nil
  then show ?case by simp
next
  case (Cons J Is)
  obtain ok S1 where r: "checkInstr A TheLoop BB J S = (ok, S1)"
    by (cases "checkInstr A TheLoop BB J S")
  show ?case
  proof (cases "I = J")
    case True
    with Cons.prems(2)[rule_format, of S] r have "\<not> ok" by simp
    with r show ?thesis by simp
  next
    case False
    with Cons.prems have "I \<in> set Is" by simp
    from Cons.IH[OF this Cons.prems(2)] r show ?thesis by simp
  qed
qed

lemma instrsBlocks_fails:
  "BB \<in> set BBs \<Longrightarrow> I \<in> set (instructions BB) \<Longrightarrow>
   (\<forall>S. \<not> fst (checkInstr A TheLoop BB I S)) \<Longrightarrow>
   \<not> fst (canVectorizeInstrsBlocks A TheLoop BBs S)"
proof (induction BBs arbitrary: S)
  case Nil
  then show ?case by simp
next
  case (Cons B BBs)
  obtain ok S1 where r: "canVectorizeInstrsOf A TheLoop B (instructions B) S = (ok, S1)"
    by (cases "canVectorizeInstrsOf A TheLoop B (instructions B) S")
  show ?case
  proof (cases "BB = B")
    case True
    with instrsOf_fails[OF Cons.prems(2) Cons.prems(3), of S] r have "\<not> ok" by simp
    with r show ?thesis by simp
  next
    case False
    with Cons.prems have "BB \<in> set BBs" by simp
    from Cons.IH[OF this Cons.prems(2) Cons.prems(3)] r show ?thesis by simp
  qed
qed

lemma canVectorizeInstrs_fails:
  "BB \<in> set (blocks (info TheLoop)) \<Longrightarrow> I \<in> set (instructions BB) \<Longrightarrow>
   (\<forall>S. \<not> fst (checkInstr A TheLoop BB I S)) \<Longrightarrow>
   \<not> fst (canVectorizeInstrs A TheLoop S)"
proof -
  assume a: "BB \<in> set (blocks (info TheLoop))" "I \<in> set (instructions BB)"
    "\<forall>S. \<not> fst (checkInstr A TheLoop BB I S)"
  let ?S1 = "S\<lparr>HasFunNoNaNAttr := (noNansFpMath A = ''true'')\<rparr>"
  obtain ok S2 where r: "canVectorizeInstrsBlocks A TheLoop (blocks (info TheLoop)) ?S1 = (ok, S2)"
    by (cases "canVectorizeInstrsBlocks A TheLoop (blocks (info TheLoop)) ?S1")
  with instrsBlocks_fails[OF a, of ?S1] have "\<not> ok" by simp
  with r show ?thesis by (simp add: canVectorizeInstrs_def Let_def)
qed

text \<open>
  Claim C2, as amended. For a phi of the header block of the loop: if it does not have
  exactly two incoming values, \<open>canVectorizeInstrs\<close> returns false; if it is no
  reduction, no induction under either attempt and no first-order recurrence,
  \<open>canVectorizeInstrs\<close> returns false; and when the scan reaches it in a state \<open>S\<close>, with
  two incoming values and of an integer, floating point or pointer type, the check records
  it as the class that the order reduction, induction, first-order recurrence, induction
  with coercion gives, the first match winning: it is entered in the map or set of that
  class only and the scan goes on, and for the phi that matches none the check returns
  false.
\<close>

theorem C2_header_phi_classification:
  assumes BB: "BB \<in> set (blocks (info TheLoop))"
    and hdr: "bid BB = bid (getHeader (info TheLoop))"
    and Phi: "Phi \<in> set (instructions BB)"
    and phi: "opcode Phi = PHI"
  shows "(getNumIncomingValues Phi \<noteq> 2 \<longrightarrow> \<not> fst (canVectorizeInstrs A TheLoop S0))
   \<and> (isReductionPHI A Phi = None \<and> (\<forall>pse Assume. fst (isInductionPHI A Phi pse Assume) = None) \<and>
        (\<forall>sink. \<not> fst (isFirstOrderRecurrence A Phi sink))
      \<longrightarrow> \<not> fst (canVectorizeInstrs A TheLoop S0))
   \<and> (getNumIncomingValues Phi = 2 \<and>
        (isIntegerTy (getType Phi) \<or> isFloatingPointTy (getType Phi) \<or> isPointerTy (getType Phi))
      \<longrightarrow> recordedAs (classificationBySpec A Phi S) Phi S (checkInstr A TheLoop BB Phi S))"
proof (intro conjI impI)
  assume "getNumIncomingValues Phi \<noteq> 2"
  then have "\<forall>S. \<not> fst (checkInstr A TheLoop BB Phi S)"
    using checkInstr_bad_phi[OF phi hdr] by blast
  from canVectorizeInstrs_fails[OF BB Phi this] show "\<not> fst (canVectorizeInstrs A TheLoop S0)" .
next
  assume "isReductionPHI A Phi = None \<and> (\<forall>pse Assume. fst (isInductionPHI A Phi pse Assume) = None) \<and>
        (\<forall>sink. \<not> fst (isFirstOrderRecurrence A Phi sink))"
  then have "\<forall>S. \<not> fst (checkInstr A TheLoop BB Phi S)"
    using checkInstr_unclassifiable[OF phi hdr] by blast
  from canVectorizeInstrs_fails[OF BB Phi this] show "\<not> fst (canVectorizeInstrs A TheLoop S0)" .
next
  assume a: "getNumIncomingValues Phi = 2 \<and>
        (isIntegerTy (getType Phi) \<or> isFloatingPointTy (getType Phi) \<or> isPointerTy (getType Phi))"
  then have e: "checkInstr A TheLoop BB Phi S = checkHeaderPhi A TheLoop Phi S"
    using phi hdr by (auto simp add: checkInstr_def Let_def)
  from a have two: "getNumIncomingValues Phi = 2" by simp
  show "recordedAs (classificationBySpec A Phi S) Phi S (checkInstr A TheLoop BB Phi S)"
    unfolding e by (rule checkHeaderPhi_class[OF two])
qed

text \<open>
  The witness: a header phi with three incoming values; and a header phi with two, which
  the collaborators take both for a reduction and for an induction: it is recorded as a
  reduction, and no induction is recorded.
\<close>

theorem C2_header_phi_classification_witness:
  "exBlock 0 [exPhi3] \<in> set (blocks (info (exLoopOf (exBlock 0 [exPhi3]) [exBlock 0 [exPhi3]])))
   \<and> exPhi3 \<in> set (instructions (exBlock 0 [exPhi3])) \<and> opcode exPhi3 = PHI
   \<and> getNumIncomingValues exPhi3 \<noteq> 2
   \<and> \<not> fst (canVectorizeInstrs exAnalyses
              (exLoopOf (exBlock 0 [exPhi3]) [exBlock 0 [exPhi3]]) exState)
   \<and> exPhi \<in> set (instructions (exBlock 0 [exPhi])) \<and> getNumIncomingValues exPhi = 2
   \<and> \<not> fst (canVectorizeInstrs exAnalyses
              (exLoopOf (exBlock 0 [exPhi]) [exBlock 0 [exPhi]]) exState)
   \<and> fst (checkInstr
        (exAnalyses\<lparr>isReductionPHI := (\<lambda>Phi. Some exRedDes),
                    isInductionPHI := (\<lambda>Phi pse Assume. (Some exID, pse))\<rparr>)
        (exLoopOf (exBlock 0 [exPhi]) [exBlock 0 [exPhi]]) (exBlock 0 [exPhi]) exPhi exState)
   \<and> map_of (Reductions (snd (checkInstr
        (exAnalyses\<lparr>isReductionPHI := (\<lambda>Phi. Some exRedDes),
                    isInductionPHI := (\<lambda>Phi pse Assume. (Some exID, pse))\<rparr>)
        (exLoopOf (exBlock 0 [exPhi]) [exBlock 0 [exPhi]]) (exBlock 0 [exPhi]) exPhi exState)))
        (ident exPhi) = Some exRedDes
   \<and> Inductions (snd (checkInstr
        (exAnalyses\<lparr>isReductionPHI := (\<lambda>Phi. Some exRedDes),
                    isInductionPHI := (\<lambda>Phi pse Assume. (Some exID, pse))\<rparr>)
        (exLoopOf (exBlock 0 [exPhi]) [exBlock 0 [exPhi]]) (exBlock 0 [exPhi]) exPhi exState))
        = []"
proof -
  let ?L3 = "exLoopOf (exBlock 0 [exPhi3]) [exBlock 0 [exPhi3]]"
  let ?L = "exLoopOf (exBlock 0 [exPhi]) [exBlock 0 [exPhi]]"
  let ?A = "exAnalyses\<lparr>isReductionPHI := (\<lambda>Phi. Some exRedDes),
                       isInductionPHI := (\<lambda>Phi pse Assume. (Some exID, pse))\<rparr>"
  have b3: "exBlock 0 [exPhi3] \<in> set (blocks (info ?L3))"
    and h3: "bid (exBlock 0 [exPhi3]) = bid (getHeader (info ?L3))"
    and i3: "exPhi3 \<in> set (instructions (exBlock 0 [exPhi3]))"
    and p3: "opcode exPhi3 = PHI"
    and n3: "getNumIncomingValues exPhi3 \<noteq> 2"
    by (simp_all add: exLoopOf_def exBlock_def instructions_def exPhi3_def exPhi_def exBr_def
        getNumIncomingValues_def)
  have b: "exBlock 0 [exPhi] \<in> set (blocks (info ?L))"
    and h: "bid (exBlock 0 [exPhi]) = bid (getHeader (info ?L))"
    and i: "exPhi \<in> set (instructions (exBlock 0 [exPhi]))"
    and p: "opcode exPhi = PHI"
    and n: "getNumIncomingValues exPhi = 2"
    and t: "isIntegerTy (getType exPhi)"
    by (simp_all add: exLoopOf_def exBlock_def instructions_def exPhi_def exBr_def
        getNumIncomingValues_def)
  have none: "isReductionPHI exAnalyses exPhi = None"
    "\<forall>pse Assume. fst (isInductionPHI exAnalyses exPhi pse Assume) = None"
    "\<forall>sink. \<not> fst (isFirstOrderRecurrence exAnalyses exPhi sink)"
    by (simp_all add: exAnalyses_def)
  have c: "classificationBySpec ?A exPhi exState = IsReduction exRedDes"
    by (simp add: classificationBySpec_def)
  have s: "Inductions exState = []" by (simp add: exState_def)
  from C2_header_phi_classification[OF b3 h3 i3 p3, of exAnalyses exState exState] n3
  have r1: "\<not> fst (canVectorizeInstrs exAnalyses ?L3 exState)" by simp
  from C2_header_phi_classification[OF b h i p, of exAnalyses exState exState] none
  have r2: "\<not> fst (canVectorizeInstrs exAnalyses ?L exState)" by simp
  from C2_header_phi_classification[OF b h i p, of ?A exState exState] n t
  have "recordedAs (classificationBySpec ?A exPhi exState) exPhi exState
          (checkInstr ?A ?L (exBlock 0 [exPhi]) exPhi exState)"
    by simp
  then have r3: "fst (checkInstr ?A ?L (exBlock 0 [exPhi]) exPhi exState)
    \<and> map_of (Reductions (snd (checkInstr ?A ?L (exBlock 0 [exPhi]) exPhi exState)))
         (ident exPhi) = Some exRedDes
    \<and> Inductions (snd (checkInstr ?A ?L (exBlock 0 [exPhi]) exPhi exState)) = []"
    unfolding c by (simp add: recordedAs_def s)
  from b3 i3 p3 n3 r1 i n r2 r3 show ?thesis by simp
qed

text \<open>
  The claim as it is stated fails for a header phi of another type: a phi of a vector type
  with two incoming values that the collaborators take for a reduction is not recorded as
  one, since every phi that is not of an integer, floating point or pointer type is
  rejected before the classification.
\<close>

theorem C2_counterexample:
  "exBlock 0 [exVectorPhi] \<in> set (blocks (info
       (exLoopOf (exBlock 0 [exVectorPhi]) [exBlock 0 [exVectorPhi]])))
   \<and> exVectorPhi \<in> set (instructions (exBlock 0 [exVectorPhi]))
   \<and> opcode exVectorPhi = PHI \<and> getNumIncomingValues exVectorPhi = 2
   \<and> classificationBySpec (exAnalyses\<lparr>isReductionPHI := (\<lambda>Phi. Some exRedDes)\<rparr>)
         exVectorPhi exState = IsReduction exRedDes
   \<and> \<not> fst (checkInstr (exAnalyses\<lparr>isReductionPHI := (\<lambda>Phi. Some exRedDes)\<rparr>)
         (exLoopOf (exBlock 0 [exVectorPhi]) [exBlock 0 [exVectorPhi]])
         (exBlock 0 [exVectorPhi]) exVectorPhi exState)
   \<and> \<not> recordedAs
         (classificationBySpec (exAnalyses\<lparr>isReductionPHI := (\<lambda>Phi. Some exRedDes)\<rparr>)
            exVectorPhi exState)
         exVectorPhi exState
         (checkInstr (exAnalyses\<lparr>isReductionPHI := (\<lambda>Phi. Some exRedDes)\<rparr>)
            (exLoopOf (exBlock 0 [exVectorPhi]) [exBlock 0 [exVectorPhi]])
            (exBlock 0 [exVectorPhi]) exVectorPhi exState)"
proof -
  let ?A = "exAnalyses\<lparr>isReductionPHI := (\<lambda>Phi. Some exRedDes)\<rparr>"
  let ?B = "exBlock 0 [exVectorPhi]"
  let ?L = "exLoopOf ?B [?B]"
  have c: "classificationBySpec ?A exVectorPhi exState = IsReduction exRedDes"
    by (simp add: classificationBySpec_def)
  have f: "\<not> fst (checkInstr ?A ?L ?B exVectorPhi exState)"
    by (simp add: checkInstr_def Let_def exVectorPhi_def exPhi_def exBr_def)
  have m: "?B \<in> set (blocks (info ?L))" "exVectorPhi \<in> set (instructions ?B)"
    "opcode exVectorPhi = PHI" "getNumIncomingValues exVectorPhi = 2"
    by (simp_all add: exLoopOf_def exBlock_def instructions_def exVectorPhi_def exPhi_def
        exBr_def getNumIncomingValues_def)
  from f have "\<not> recordedAs (IsReduction exRedDes) exVectorPhi exState
                  (checkInstr ?A ?L ?B exVectorPhi exState)"
    by (simp add: recordedAs_def)
  with c f m show ?thesis by simp
qed

subsection \<open>Predication of a block and folding the tail by masking\<close>

lemma bcp_result:
  "fst (blockCanBePredicatedInstrs par Safe Is S) = list_all (instrCanBePredicated Safe) Is"
  by (induction Is arbitrary: S par)
     (auto simp add: instrCanBePredicated_def maskedLoad_def trappingOperand_def list_ex_iff)

lemma bcp_masked:
  "fst (blockCanBePredicatedInstrs par Safe Is S) \<Longrightarrow>
   set (MaskedOp (snd (blockCanBePredicatedInstrs par Safe Is S))) =
     set (MaskedOp S) \<union>
     ident ` {I \<in> set Is. (maskedLoad Safe I \<and> \<not> par) \<or> (\<not> maskedLoad Safe I \<and> mayWriteToMemory I)}"
proof (induction Is arbitrary: S par)
  case Nil
  show ?case by simp
next
  case (Cons I Is)
  from Cons.prems show ?case
    by (auto simp add: Cons.IH maskedLoad_def split: if_splits)
qed

lemma foldTail_result:
  "fst (foldTailBlocks A TheLoop BBs S) =
     list_all (\<lambda>BB. list_all (instrCanBePredicated []) (instructions BB)) BBs"
proof (induction BBs arbitrary: S)
  case Nil
  show ?case by simp
next
  case (Cons BB BBs)
  obtain ok S1 where r: "blockCanBePredicated TheLoop BB [] S = (ok, S1)"
    by (cases "blockCanBePredicated TheLoop BB [] S")
  then have "ok = list_all (instrCanBePredicated []) (instructions BB)"
    using bcp_result[of "isAnnotatedParallel (info TheLoop)" "[]" "instructions BB" S]
    by (simp add: blockCanBePredicated_def)
  with r show ?case by (simp add: Cons.IH)
qed

text \<open>
  Claim C3. \<open>canFoldTailByMasking\<close> returns true if and only if there is a primary
  induction, the map of the reductions is empty, every user of every value of
  \<open>AllowedExit\<close> is in the loop, and every block of the loop, the header as any other,
  passes \<open>blockCanBePredicated\<close> with the empty set of safe pointers.
\<close>

theorem C3_canFoldTailByMasking:
  "fst (canFoldTailByMasking A TheLoop S) \<longleftrightarrow>
     PrimaryInduction S \<noteq> None \<and> Reductions S = [] \<and>
     (\<forall>AE \<in> set (AllowedExit S). \<forall>UI \<in> set (users A AE). contains A TheLoop UI) \<and>
     (\<forall>BB \<in> set (blocks (info TheLoop)). fst (blockCanBePredicated TheLoop BB [] S))"
proof -
  have f: "(find (\<lambda>UI. \<not> contains A TheLoop UI) (concat (map (users A) (AllowedExit S))) = None)
        \<longleftrightarrow> (\<forall>AE \<in> set (AllowedExit S). \<forall>UI \<in> set (users A AE). contains A TheLoop UI)"
    by (auto simp add: find_None_iff)
  have b: "\<And>BB. fst (blockCanBePredicated TheLoop BB [] S)
             = list_all (instrCanBePredicated []) (instructions BB)"
    by (simp add: blockCanBePredicated_def bcp_result)
  show ?thesis
  proof (cases "find (\<lambda>UI. \<not> contains A TheLoop UI) (concat (map (users A) (AllowedExit S)))")
    case None
    with f have "\<forall>AE \<in> set (AllowedExit S). \<forall>UI \<in> set (users A AE). contains A TheLoop UI"
      by simp
    with None show ?thesis
      by (simp add: canFoldTailByMasking_def foldTail_result b list_all_iff)
  next
    case (Some UI)
    with f have "\<not> (\<forall>AE \<in> set (AllowedExit S). \<forall>UI \<in> set (users A AE). contains A TheLoop UI)"
      by simp
    with Some show ?thesis
      by (simp add: canFoldTailByMasking_def)
  qed
qed


text \<open>
  The witness: a loop of one block with a phi and a store, a primary induction, no
  reduction and allowed exits without users: the tail can be folded; with a reduction, or
  with a user of an allowed exit outside the loop, it cannot.
\<close>

theorem C3_canFoldTailByMasking_witness:
  "fst (canFoldTailByMasking exAnalyses
          (exLoopOf (exBlock 0 [exPhi, exStore]) [exBlock 0 [exPhi, exStore]])
          (exState\<lparr>PrimaryInduction := Some exPhi, AllowedExit := [2, 3]\<rparr>))
   \<and> \<not> fst (canFoldTailByMasking exAnalyses
          (exLoopOf (exBlock 0 [exPhi, exStore]) [exBlock 0 [exPhi, exStore]])
          (exState\<lparr>PrimaryInduction := Some exPhi, AllowedExit := [2, 3],
                    Reductions := [(2, exRedDes)]\<rparr>))
   \<and> \<not> fst (canFoldTailByMasking (exAnalyses\<lparr>users := (\<lambda>V. [20]), getParent := (\<lambda>V. 30)\<rparr>)
          (exLoopOf (exBlock 0 [exPhi, exStore]) [exBlock 0 [exPhi, exStore]])
          (exState\<lparr>PrimaryInduction := Some exPhi, AllowedExit := [2, 3]\<rparr>))"
proof -
  let ?L = "exLoopOf (exBlock 0 [exPhi, exStore]) [exBlock 0 [exPhi, exStore]]"
  let ?S = "exState\<lparr>PrimaryInduction := Some exPhi, AllowedExit := [2, 3]\<rparr>"
  have u: "\<forall>AE \<in> set (AllowedExit ?S). \<forall>UI \<in> set (users exAnalyses AE). contains exAnalyses ?L UI"
    by (simp add: exAnalyses_def)
  have bl: "\<And>S. \<forall>BB \<in> set (blocks (info ?L)). fst (blockCanBePredicated ?L BB [] S)"
    by (simp add: exLoopOf_def blockCanBePredicated_def instructions_def exBlock_def exPhi_def
        exStore_def exBr_def exValue_def)
  have r: "Reductions ?S = []" by (simp add: exState_def)
  have o: "\<not> (\<forall>AE \<in> set (AllowedExit ?S).
              \<forall>UI \<in> set (users (exAnalyses\<lparr>users := (\<lambda>V. [20]), getParent := (\<lambda>V. 30)\<rparr>) AE).
                 contains (exAnalyses\<lparr>users := (\<lambda>V. [20]), getParent := (\<lambda>V. 30)\<rparr>) ?L UI)"
    by (auto simp add: contains_def exLoopOf_def exBlock_def)
  from C3_canFoldTailByMasking[of exAnalyses ?L ?S] u bl[of ?S] r
  have 1: "fst (canFoldTailByMasking exAnalyses ?L ?S)" by simp
  from C3_canFoldTailByMasking[of exAnalyses ?L "?S\<lparr>Reductions := [(2, exRedDes)]\<rparr>"]
  have 2: "\<not> fst (canFoldTailByMasking exAnalyses ?L (?S\<lparr>Reductions := [(2, exRedDes)]\<rparr>))"
    by simp
  from C3_canFoldTailByMasking[of "exAnalyses\<lparr>users := (\<lambda>V. [20]), getParent := (\<lambda>V. 30)\<rparr>" ?L ?S] o
  have 3: "\<not> fst (canFoldTailByMasking (exAnalyses\<lparr>users := (\<lambda>V. [20]), getParent := (\<lambda>V. 30)\<rparr>)
                    ?L ?S)"
    by blast
  from 1 2 3 show ?thesis by simp
qed

text \<open>
  The claim as it is stated fails for a volatile load, which may write to memory and is
  not a store: its address is not a safe pointer, so it is recorded for masking and the
  test of the writes is not reached.
\<close>

theorem C5_counterexample:
  "fst (blockCanBePredicated (exLoopOf (exBlock 0 [exVolatileLoad]) [exBlock 0 [exVolatileLoad]])
          (exBlock 0 [exVolatileLoad]) [] exState)
   \<and> exVolatileLoad \<in> set (instructions (exBlock 0 [exVolatileLoad]))
   \<and> mayWriteToMemory exVolatileLoad \<and> opcode exVolatileLoad \<noteq> Store"
  by (simp add: blockCanBePredicated_def instructions_def exBlock_def exVolatileLoad_def
      exBr_def exValue_def)

lemma distinct_ident:
  "distinct (map ident Is) \<Longrightarrow> I \<in> set Is \<Longrightarrow> J \<in> set Is \<Longrightarrow> ident I = ident J \<Longrightarrow> I = J"
  by (auto simp add: distinct_map inj_on_def)

text \<open>
  Claim C5, as amended. For a block of well-formed instructions with distinct identities:
  \<open>blockCanBePredicated\<close> returns false when an instruction of the block has an operand
  that is a constant which can trap, or reads memory and is not a load, or writes memory
  and is neither a store nor a load recorded for masking (a load whose address is not a
  safe pointer is recorded and looked at no further), or may throw. When it returns true,
  every load whose address is not a safe pointer is in \<open>MaskedOp\<close> unless the loop is
  annotated parallel, a load from a safe pointer (or of a loop annotated parallel) that
  was not in \<open>MaskedOp\<close> is not in it, and every store is in \<open>MaskedOp\<close>.
\<close>

theorem C5_blockCanBePredicated:
  assumes wf: "\<forall>I \<in> set (instructions BB). wellFormedInstr I"
    and dist: "distinct (map ident (instructions BB))"
  shows "((\<exists>I \<in> set (instructions BB).
             trappingOperand I \<or> (mayReadFromMemory I \<and> opcode I \<noteq> Load) \<or>
             (mayWriteToMemory I \<and> opcode I \<noteq> Store \<and> \<not> maskedLoad SafePtrs I) \<or> mayThrow I)
          \<longrightarrow> \<not> fst (blockCanBePredicated TheLoop BB SafePtrs S))
     \<and> (fst (blockCanBePredicated TheLoop BB SafePtrs S) \<longrightarrow>
          (\<forall>I \<in> set (instructions BB).
             (opcode I = Load \<and> getPointerOperand I \<notin> set SafePtrs \<and>
                \<not> isAnnotatedParallel (info TheLoop)
              \<longrightarrow> ident I \<in> set (MaskedOp (snd (blockCanBePredicated TheLoop BB SafePtrs S)))) \<and>
             (opcode I = Load \<and>
                (getPointerOperand I \<in> set SafePtrs \<or> isAnnotatedParallel (info TheLoop)) \<and>
                ident I \<notin> set (MaskedOp S)
              \<longrightarrow> ident I \<notin> set (MaskedOp (snd (blockCanBePredicated TheLoop BB SafePtrs S)))) \<and>
             (opcode I = Store
              \<longrightarrow> ident I \<in> set (MaskedOp (snd (blockCanBePredicated TheLoop BB SafePtrs S))))))"
proof (intro conjI impI)
  assume "\<exists>I \<in> set (instructions BB).
             trappingOperand I \<or> (mayReadFromMemory I \<and> opcode I \<noteq> Load) \<or>
             (mayWriteToMemory I \<and> opcode I \<noteq> Store \<and> \<not> maskedLoad SafePtrs I) \<or> mayThrow I"
  then obtain I where I: "I \<in> set (instructions BB)"
    and bad: "trappingOperand I \<or> (mayReadFromMemory I \<and> opcode I \<noteq> Load) \<or>
             (mayWriteToMemory I \<and> opcode I \<noteq> Store \<and> \<not> maskedLoad SafePtrs I) \<or> mayThrow I"
    by blast
  from wf I have "wellFormedInstr I" by blast
  with bad have "\<not> instrCanBePredicated SafePtrs I"
    by (auto simp add: instrCanBePredicated_def wellFormedInstr_def maskedLoad_def)
  with I show "\<not> fst (blockCanBePredicated TheLoop BB SafePtrs S)"
    by (auto simp add: blockCanBePredicated_def bcp_result list_all_iff)
next
  let ?par = "isAnnotatedParallel (info TheLoop)"
  let ?S' = "snd (blockCanBePredicated TheLoop BB SafePtrs S)"
  assume ok: "fst (blockCanBePredicated TheLoop BB SafePtrs S)"
  then have all: "\<forall>I \<in> set (instructions BB). instrCanBePredicated SafePtrs I"
    by (simp add: blockCanBePredicated_def bcp_result list_all_iff)
  from ok have m: "set (MaskedOp ?S') = set (MaskedOp S) \<union>
     ident ` {I \<in> set (instructions BB). (maskedLoad SafePtrs I \<and> \<not> ?par) \<or>
                                      (\<not> maskedLoad SafePtrs I \<and> mayWriteToMemory I)}"
    unfolding blockCanBePredicated_def by (rule bcp_masked)
  show "\<forall>I \<in> set (instructions BB).
             (opcode I = Load \<and> getPointerOperand I \<notin> set SafePtrs \<and> \<not> ?par
              \<longrightarrow> ident I \<in> set (MaskedOp ?S')) \<and>
             (opcode I = Load \<and> (getPointerOperand I \<in> set SafePtrs \<or> ?par) \<and>
                ident I \<notin> set (MaskedOp S)
              \<longrightarrow> ident I \<notin> set (MaskedOp ?S')) \<and>
             (opcode I = Store \<longrightarrow> ident I \<in> set (MaskedOp ?S'))"
  proof (intro ballI conjI impI)
    fix I assume I: "I \<in> set (instructions BB)"
      and h: "opcode I = Load \<and> getPointerOperand I \<notin> set SafePtrs \<and> \<not> ?par"
    from wf I h have "maskedLoad SafePtrs I" by (auto simp add: wellFormedInstr_def maskedLoad_def)
    with I h m show "ident I \<in> set (MaskedOp ?S')" by auto
  next
    fix I assume I: "I \<in> set (instructions BB)"
      and h: "opcode I = Load \<and> (getPointerOperand I \<in> set SafePtrs \<or> ?par) \<and>
                ident I \<notin> set (MaskedOp S)"
    show "ident I \<notin> set (MaskedOp ?S')"
    proof
      assume "ident I \<in> set (MaskedOp ?S')"
      with m h obtain J where J: "J \<in> set (instructions BB)" and e: "ident I = ident J"
        and c: "(maskedLoad SafePtrs J \<and> \<not> ?par) \<or> (\<not> maskedLoad SafePtrs J \<and> mayWriteToMemory J)"
        by auto
      from distinct_ident[OF dist I J e] have "I = J" .
      with c h have c': "\<not> maskedLoad SafePtrs I \<and> mayWriteToMemory I"
        by (auto simp add: maskedLoad_def)
      from all I have "instrCanBePredicated SafePtrs I" by blast
      with c' h show False by (auto simp add: instrCanBePredicated_def)
    qed
  next
    fix I assume I: "I \<in> set (instructions BB)" and h: "opcode I = Store"
    from wf I h have "\<not> maskedLoad SafePtrs I \<and> mayWriteToMemory I"
      by (auto simp add: wellFormedInstr_def maskedLoad_def)
    with I m show "ident I \<in> set (MaskedOp ?S')" by auto
  qed
qed


text \<open>
  The witness: a block with a load, a store and a branch, whose load and store are
  recorded; and a block with a call that may throw, which cannot be predicated.
\<close>

theorem C5_blockCanBePredicated_witness:
  "list_all wellFormedInstr (instructions (exBlock 0 [exLoad, exStore]))
   \<and> distinct (map ident (instructions (exBlock 0 [exLoad, exStore])))
   \<and> fst (blockCanBePredicated (exLoopOf (exBlock 0 [exLoad, exStore]) [exBlock 0 [exLoad, exStore]])
            (exBlock 0 [exLoad, exStore]) [] exState)
   \<and> ident exLoad \<in> set (MaskedOp (snd (blockCanBePredicated
            (exLoopOf (exBlock 0 [exLoad, exStore]) [exBlock 0 [exLoad, exStore]])
            (exBlock 0 [exLoad, exStore]) [] exState)))
   \<and> ident exStore \<in> set (MaskedOp (snd (blockCanBePredicated
            (exLoopOf (exBlock 0 [exLoad, exStore]) [exBlock 0 [exLoad, exStore]])
            (exBlock 0 [exLoad, exStore]) [] exState)))
   \<and> list_all wellFormedInstr (instructions (exBlock 0 [exThrowingCall]))
   \<and> distinct (map ident (instructions (exBlock 0 [exThrowingCall])))
   \<and> \<not> fst (blockCanBePredicated (exLoopOf (exBlock 0 [exLoad, exStore]) [exBlock 0 [exLoad, exStore]])
            (exBlock 0 [exThrowingCall]) [] exState)"
proof -
  let ?B = "exBlock 0 [exLoad, exStore]"
  let ?L = "exLoopOf ?B [?B]"
  let ?T = "exBlock 0 [exThrowingCall]"
  have wf: "\<forall>I \<in> set (instructions ?B). wellFormedInstr I"
    and d: "distinct (map ident (instructions ?B))"
    and wfT: "\<forall>I \<in> set (instructions ?T). wellFormedInstr I"
    and dT: "distinct (map ident (instructions ?T))"
    by (simp_all add: instructions_def exBlock_def wellFormedInstr_def exLoad_def exStore_def
        exThrowingCall_def exBr_def)
  have ok: "fst (blockCanBePredicated ?L ?B [] exState)"
    by (simp add: blockCanBePredicated_def instructions_def exBlock_def exLoad_def exStore_def
        exBr_def exValue_def)
  have mem: "exLoad \<in> set (instructions ?B)" "exStore \<in> set (instructions ?B)"
    "exThrowingCall \<in> set (instructions ?T)"
    by (simp_all add: instructions_def exBlock_def)
  have facts: "opcode exLoad = Load" "getPointerOperand exLoad \<notin> set []"
    "\<not> isAnnotatedParallel (info ?L)" "opcode exStore = Store" "mayThrow exThrowingCall"
    by (simp_all add: exLoad_def exStore_def exThrowingCall_def exBr_def exLoopOf_def)
  from C5_blockCanBePredicated[OF wf d, of "[]" ?L exState] ok mem(1,2) facts
  have 1: "ident exLoad \<in> set (MaskedOp (snd (blockCanBePredicated ?L ?B [] exState)))
         \<and> ident exStore \<in> set (MaskedOp (snd (blockCanBePredicated ?L ?B [] exState)))"
    by blast
  from C5_blockCanBePredicated[OF wfT dT, of "[]" ?L exState] mem(3) facts(5)
  have 2: "\<not> fst (blockCanBePredicated ?L ?T [] exState)" by blast
  from wf d ok 1 wfT dT 2 show ?thesis by (simp add: list_all_iff)
qed

subsection \<open>If-conversion\<close>

lemma ifConvertBlocks_phis:
  "fst (ifConvertBlocks A TheLoop Safe BBs S) \<Longrightarrow> BB \<in> set BBs \<Longrightarrow>
   \<not> blockNeedsPredication A (bid BB) \<Longrightarrow> bid BB \<noteq> bid (getHeader (info TheLoop)) \<Longrightarrow>
   canIfConvertPHINodes BB"
proof (induction BBs arbitrary: S)
  case Nil
  then show ?case by simp
next
  case (Cons B BBs)
  obtain ok S1 where r: "blockCanBePredicated TheLoop B Safe S = (ok, S1)"
    by (cases "blockCanBePredicated TheLoop B Safe S")
  show ?case
  proof (cases "BB = B")
    case True
    with Cons.prems show ?thesis by (auto split: if_splits)
  next
    case False
    with Cons.prems have in_rest: "BB \<in> set BBs" by simp
    from Cons.prems(1) r have "\<exists>S'. fst (ifConvertBlocks A TheLoop Safe BBs S')"
      by (auto split: if_splits)
    then obtain S' where "fst (ifConvertBlocks A TheLoop Safe BBs S')" ..
    from Cons.IH[OF this in_rest Cons.prems(3) Cons.prems(4)] show ?thesis .
  qed
qed

lemma trapping_phi:
  "Phi \<in> set (phis BB) \<Longrightarrow> V \<in> set (operands Phi) \<Longrightarrow> opIsConstant V \<Longrightarrow> opCanTrap V \<Longrightarrow>
   \<not> canIfConvertPHINodes BB"
  by (auto simp add: canIfConvertPHINodes_def list_ex_iff)

text \<open>
  Claim C6, as amended. In \<open>canVectorizeWithIfConvert\<close>, every block other than the header
  that does not need predication must pass \<open>canIfConvertPHINodes\<close>: a phi of such a block
  with an incoming value that is a constant which can trap makes the check fail, and makes
  \<open>canVectorizeWithIfConvert\<close> return false. The header is not checked.
\<close>

theorem C6_ifConvert_phis:
  "BB \<in> set (blocks (info TheLoop)) \<Longrightarrow> \<not> blockNeedsPredication A (bid BB) \<Longrightarrow>
   bid BB \<noteq> bid (getHeader (info TheLoop)) \<Longrightarrow>
   Phi \<in> set (phis BB) \<Longrightarrow> V \<in> set (operands Phi) \<Longrightarrow> opIsConstant V \<Longrightarrow> opCanTrap V \<Longrightarrow>
   \<not> canIfConvertPHINodes BB \<and> \<not> fst (canVectorizeWithIfConvert C A TheLoop S)"
proof -
  assume BB: "BB \<in> set (blocks (info TheLoop))" and np: "\<not> blockNeedsPredication A (bid BB)"
    and nh: "bid BB \<noteq> bid (getHeader (info TheLoop))"
    and Phi: "Phi \<in> set (phis BB)" and V: "V \<in> set (operands Phi)" "opIsConstant V" "opCanTrap V"
  from trapping_phi[OF Phi V] have t: "\<not> canIfConvertPHINodes BB" .
  have "\<not> fst (canVectorizeWithIfConvert C A TheLoop S)"
  proof
    assume "fst (canVectorizeWithIfConvert C A TheLoop S)"
    then have "fst (ifConvertBlocks A TheLoop (collectSafePointers A TheLoop)
                      (blocks (info TheLoop)) S)"
      by (simp add: canVectorizeWithIfConvert_def split: if_splits)
    from ifConvertBlocks_phis[OF this BB np nh] t show False by simp
  qed
  with t show ?thesis by simp
qed

theorem C6_ifConvert_phis_witness:
  "exBlock 1 [exTrapPhi] \<in> set (blocks (info (exLoopOf (exBlock 0 [])
       [exBlock 0 [], exBlock 1 [exTrapPhi], exBlock 2 []])))
   \<and> \<not> blockNeedsPredication exAnalyses (bid (exBlock 1 [exTrapPhi]))
   \<and> bid (exBlock 1 [exTrapPhi]) \<noteq> bid (getHeader (info (exLoopOf (exBlock 0 [])
       [exBlock 0 [], exBlock 1 [exTrapPhi], exBlock 2 []])))
   \<and> exTrapPhi \<in> set (phis (exBlock 1 [exTrapPhi]))
   \<and> \<not> canIfConvertPHINodes (exBlock 1 [exTrapPhi])
   \<and> \<not> fst (canVectorizeWithIfConvert exConfig exAnalyses
        (exLoopOf (exBlock 0 []) [exBlock 0 [], exBlock 1 [exTrapPhi], exBlock 2 []]) exState)"
proof -
  let ?V = "\<lparr>opValue = 50, opIsConstant = True, opCanTrap = True, opIsNullValue = False\<rparr>"
  let ?L = "exLoopOf (exBlock 0 []) [exBlock 0 [], exBlock 1 [exTrapPhi], exBlock 2 []]"
  have b: "exBlock 1 [exTrapPhi] \<in> set (blocks (info ?L))"
    and np: "\<not> blockNeedsPredication exAnalyses (bid (exBlock 1 [exTrapPhi]))"
    and nh: "bid (exBlock 1 [exTrapPhi]) \<noteq> bid (getHeader (info ?L))"
    and p: "exTrapPhi \<in> set (phis (exBlock 1 [exTrapPhi]))"
    and v: "?V \<in> set (operands exTrapPhi)" "opIsConstant ?V" "opCanTrap ?V"
    by (simp_all add: exLoopOf_def exBlock_def exAnalyses_def phis_def instructions_def
        exTrapPhi_def exPhi_def exBr_def)
  from C6_ifConvert_phis[OF b np nh p v, of exConfig exState] b np nh p
  show ?thesis by simp
qed

text \<open>
  The claim as it is stated fails for the header: a loop whose header has a phi with an
  incoming constant that can trap passes \<open>canVectorizeWithIfConvert\<close>.
\<close>

theorem C6_counterexample:
  "fst (canVectorizeWithIfConvert exConfig exAnalyses
          (exLoopOf (exBlock 0 [exTrapPhi]) [exBlock 0 [exTrapPhi], exBlock 1 []]) exState)
   \<and> exBlock 0 [exTrapPhi] \<in> set (blocks (info
          (exLoopOf (exBlock 0 [exTrapPhi]) [exBlock 0 [exTrapPhi], exBlock 1 []])))
   \<and> getHeader (info (exLoopOf (exBlock 0 [exTrapPhi]) [exBlock 0 [exTrapPhi], exBlock 1 []]))
       = exBlock 0 [exTrapPhi]
   \<and> \<not> blockNeedsPredication exAnalyses (bid (exBlock 0 [exTrapPhi]))
   \<and> \<not> canIfConvertPHINodes (exBlock 0 [exTrapPhi])"
  by (simp add: canVectorizeWithIfConvert_def exConfig_def exAnalyses_def exLoopOf_def
      exBlock_def exBr_def canIfConvertPHINodes_def phis_def instructions_def
      exTrapPhi_def exPhi_def exValue_def)


end
